theory Spec2Isabelle
  imports Main "HOL-Library.AList"
begin

section \<open>Values and exceptions shared by both scripts\<close>

text \<open>
  The exceptions the two scripts raise, catch or let through. \<open>TimeoutException\<close> and
  \<open>NoSuchElementException\<close> are Selenium's, the latter with the message it was made
  with (\<open>None\<close> when it is raised without one); \<open>WebDriverException\<close> stands for every
  other failure of the browser driver; \<open>ConnectionError\<close> for a failure of the HTTP
  transport; \<open>JSONDecodeError\<close> is raised by JSON decoding only.
\<close>

datatype error =
    KeyError
  | TypeError
  | IndexError
  | ValueError
  | JSONDecodeError
  | ConnectionError
  | TimeoutException
  | NoSuchElementException "string option"
  | WebDriverException

section \<open>restcountries.py: the lookup client\<close>

subsection \<open>Decoded JSON and the Python operations on it\<close>

text \<open>
  What \<open>response.json()\<close> returns: \<open>None\<close>, a bool, a number, a str, a list or a dict
  with str keys. A dict is an association list in insertion order with distinct keys.
  Numbers are integers here (a float never decides a branch of this script other
  than by being zero or not).
\<close>

datatype json =
    JNull
  | JBool bool
  | JNum int
  | JStr string
  | JArr "json list"
  | JObj "(string \<times> json) list"

text \<open>Python's truth value of a decoded result, as \<open>if res:\<close> tests it.\<close>

fun truthy :: "json \<Rightarrow> bool" where
  "truthy JNull = False"
| "truthy (JBool b) = b"
| "truthy (JNum n) = (n \<noteq> 0)"
| "truthy (JStr s) = (s \<noteq> [])"
| "truthy (JArr xs) = (xs \<noteq> [])"
| "truthy (JObj d) = (d \<noteq> [])"

text \<open>\<open>v[k]\<close> for a str key \<open>k\<close>: only a dict can be subscripted by a str.\<close>

fun py_getitem :: "json \<Rightarrow> string \<Rightarrow> error + json" where
  "py_getitem (JObj d) k = (case map_of d k of None \<Rightarrow> Inl KeyError | Some v \<Rightarrow> Inr v)"
| "py_getitem v k = Inl TypeError"

text \<open>\<open>v[k] = x\<close> for a str key \<open>k\<close>: an existing key keeps its place, a new one goes last.\<close>

fun py_setitem :: "json \<Rightarrow> string \<Rightarrow> json \<Rightarrow> error + json" where
  "py_setitem (JObj d) k x = Inr (JObj (AList.update k x d))"
| "py_setitem v k x = Inl TypeError"

text \<open>\<open>len(v)\<close>.\<close>

fun py_len :: "json \<Rightarrow> error + nat" where
  "py_len (JStr s) = Inr (length s)"
| "py_len (JArr xs) = Inr (length xs)"
| "py_len (JObj d) = Inr (length d)"
| "py_len v = Inl TypeError"

text \<open>\<open>v[0]\<close>: the first element of a list, the first character of a str; a dict with
  str keys has no key \<open>0\<close>.\<close>

fun py_first :: "json \<Rightarrow> error + json" where
  "py_first (JArr (x # xs)) = Inr x"
| "py_first (JArr []) = Inl IndexError"
| "py_first (JStr (c # cs)) = Inr (JStr [c])"
| "py_first (JStr []) = Inl IndexError"
| "py_first (JObj d) = Inl KeyError"
| "py_first v = Inl TypeError"

subsection \<open>\<open>_print_table\<close>\<close>

text \<open>What the script prints: a line of text, or a table (the header labels and, per
  row, the cells), whose layout is the table library's.\<close>

datatype printed =
    Line string
  | Table "string list" "json list list"

text \<open>Line 29: \<open>country["name"] = country["name"]["common"]\<close>.\<close>

definition set_name :: "json \<Rightarrow> error + json" where
  "set_name country =
     (case py_getitem country ''name'' of
        Inl e \<Rightarrow> Inl e
      | Inr n \<Rightarrow>
          (case py_getitem n ''common'' of
             Inl e \<Rightarrow> Inl e
           | Inr c \<Rightarrow> py_setitem country ''name'' c))"

text \<open>Lines 30 to 33: the capital list becomes \<open>"None"\<close> when empty, its element when
  it has one, and stays as it is otherwise (there is no \<open>else\<close>).\<close>

definition set_capital :: "json \<Rightarrow> error + json" where
  "set_capital country =
     (case py_getitem country ''capital'' of
        Inl e \<Rightarrow> Inl e
      | Inr cap \<Rightarrow>
          (case py_len cap of
             Inl e \<Rightarrow> Inl e
           | Inr n \<Rightarrow>
               if n = 0 then py_setitem country ''capital'' (JStr ''None'')
               else if n = 1 then
                 (case py_first cap of
                    Inl e \<Rightarrow> Inl e
                  | Inr x \<Rightarrow> py_setitem country ''capital'' x)
               else Inr country))"

text \<open>Line 34: \<open>country["flags"] = country["flags"]["png"]\<close>.\<close>

definition set_flags :: "json \<Rightarrow> error + json" where
  "set_flags country =
     (case py_getitem country ''flags'' of
        Inl e \<Rightarrow> Inl e
      | Inr f \<Rightarrow>
          (case py_getitem f ''png'' of
             Inl e \<Rightarrow> Inl e
           | Inr p \<Rightarrow> py_setitem country ''flags'' p))"

text \<open>
  One pass of the loop body (lines 29 to 34) over one record: the exception it raises,
  if any, and the record as the pass leaves it. Each statement assigns last, so a
  statement that raises leaves the record as the statement found it.
\<close>

definition loop_body :: "json \<Rightarrow> error option \<times> json" where
  "loop_body country =
     (case set_name country of
        Inl e \<Rightarrow> (Some e, country)
      | Inr c1 \<Rightarrow>
          (case set_capital c1 of
             Inl e \<Rightarrow> (Some e, c1)
           | Inr c2 \<Rightarrow>
               (case set_flags c2 of
                  Inl e \<Rightarrow> (Some e, c2)
                | Inr c3 \<Rightarrow> (None, c3))))"

text \<open>
  The objects the loop works on: \<open>_print_table\<close> rewrites the dicts its list holds in
  place, so a list is a list of addresses and a heap tells what object is at an
  address now. The same address may stand in a list more than once.
\<close>

type_synonym heap = "nat \<Rightarrow> json"

text \<open>The loop \<open>for country in data\<close> over a list: each pass reads the object at the
  next address as it is now and leaves it rewritten; the loop stops at the first
  pass that raises, with the objects visited before it rewritten and the ones after
  it untouched.\<close>

fun for_countries :: "nat list \<Rightarrow> heap \<Rightarrow> error option \<times> heap" where
  "for_countries [] h = (None, h)"
| "for_countries (a # rest) h =
     (case loop_body (h a) of
        (Some e, c') \<Rightarrow> (Some e, h(a := c'))
      | (None, c') \<Rightarrow> for_countries rest (h(a := c')))"

text \<open>The columns \<open>["name", "capital", "flags"]\<close> of one record of the frame (a cell
  a record lacks would be a missing value; after the loop no record lacks one).\<close>

definition table_row :: "json \<Rightarrow> json list" where
  "table_row r =
     (case r of
        JObj d \<Rightarrow>
          map (\<lambda>k. case map_of d k of None \<Rightarrow> JNull | Some v \<Rightarrow> v)
            [''name'', ''capital'', ''flags'']
      | _ \<Rightarrow> [])"

text \<open>
  \<open>_print_table(data)\<close> for a list \<open>data\<close> of addresses: the outcome (\<open>Inl\<close> the
  exception raised), the heap after the call, and what was printed. After the loop
  the list is framed, one row per position with the object there as it is then, and
  printed; the frame of an empty list has no columns, so projecting the three
  columns raises \<open>KeyError\<close>.
\<close>

definition print_table :: "nat list \<Rightarrow> heap \<Rightarrow> (error + unit) \<times> heap \<times> printed list" where
  "print_table data h =
     (case for_countries data h of
        (Some e, h') \<Rightarrow> (Inl e, h', [])
      | (None, h') \<Rightarrow>
          if data = [] then (Inl KeyError, h', [])
          else (Inr (), h',
                [Table [''Name'', ''Capital city'', ''Flag''] (map (\<lambda>a. table_row (h' a)) data),
                 Line [CHR 0x0A]]))"

text \<open>
  \<open>self._print_table(res)\<close> on a value that has just been decoded: the outcome, the
  value afterwards, and what was printed. The elements of a decoded list are fresh
  objects, each its own: they are put at the addresses \<open>0, 1, ...\<close> and the list of
  these addresses is handed to \<open>_print_table\<close>. Any other value raises before anything
  is printed: \<open>None\<close>, a bool and a number cannot be iterated (\<open>TypeError\<close>); a
  non-empty dict or str iterates to strs, and \<open>country["name"]\<close> on a str is a
  \<open>TypeError\<close>; an empty dict frames to no columns (\<open>KeyError\<close>); an empty str is
  refused by the frame constructor (\<open>ValueError\<close>).
\<close>

definition print_decoded :: "json \<Rightarrow> (error + unit) \<times> json \<times> printed list" where
  "print_decoded res =
     (case res of
        JArr cs \<Rightarrow>
          (case print_table [0..<length cs] (\<lambda>a. if a < length cs then cs ! a else JNull) of
             (r, h', out) \<Rightarrow> (r, JArr (map h' [0..<length cs]), out))
      | JObj d \<Rightarrow> (Inl (if d = [] then KeyError else TypeError), res, [])
      | JStr s \<Rightarrow> (Inl (if s = [] then ValueError else TypeError), res, [])
      | _ \<Rightarrow> (Inl TypeError, res, []))"

subsection \<open>The client's state and \<open>_get_request\<close>\<close>

text \<open>The value of a query parameter: a str, an int, or a list of them.\<close>

datatype param =
    QStr string
  | QInt int
  | QList "param list"

type_synonym params = "(string \<times> param) list"

text \<open>
  An HTTP response as the script reads it: \<open>response.status_code\<close>, \<open>response.text\<close>
  and the outcome of \<open>response.json()\<close> (\<open>Inl\<close> the message of the \<open>JSONDecodeError\<close>
  it raises on a body that is not JSON).
\<close>

record response =
  status_code :: nat
  body_text :: string
  body_json :: "string + json"

text \<open>\<open>requests.get(url, params=...)\<close>: the remote end answers, or the transport
  raises (\<open>Inl\<close>), which no code of the script catches.\<close>

type_synonym server = "string \<Rightarrow> params \<Rightarrow> error + response"

text \<open>
  What outlives a call. \<open>class_fields\<close> is the one dict object bound to the class
  attribute \<open>RestCountries._fields\<close>; \<open>sent\<close> lists the GET requests issued so far,
  oldest first, each with the parameters it carried; \<open>console\<close> is the standard output.
\<close>

record world =
  class_fields :: params
  sent :: "(string \<times> params) list"
  console :: "printed list"

text \<open>The state when the module has been loaded: line 19.\<close>

definition initial_world :: world where
  "initial_world =
     \<lparr>class_fields = [(''fields'', QList [QStr ''name'', QStr ''capital'', QStr ''flags''])],
      sent = [],
      console = []\<rparr>"

text \<open>
  \<open>self._fields\<close> on the instance \<open>self\<close> (an object identity). No line of the script
  assigns an attribute of an instance and the class has no \<open>__init__\<close>, so the lookup
  finds nothing in the instance and falls through to the class attribute: every
  instance reads the same dict object.
\<close>

definition self_fields :: "nat \<Rightarrow> world \<Rightarrow> params" where
  "self_fields self w = class_fields w"

text \<open>\<open>self._fields[k] = v\<close>: the lookup as above, then an item assignment on the object
  found, which is the class's dict.\<close>

definition self_fields_setitem :: "nat \<Rightarrow> string \<Rightarrow> param \<Rightarrow> world \<Rightarrow> world" where
  "self_fields_setitem self k v w = w\<lparr>class_fields := AList.update k v (class_fields w)\<rparr>"

definition main_url :: string where
  "main_url = ''https://restcountries.com/v3.1''"

text \<open>\<open>sep.join(parts)\<close>.\<close>

fun str_join :: "string \<Rightarrow> string list \<Rightarrow> string" where
  "str_join sep [] = []"
| "str_join sep [x] = x"
| "str_join sep (x # y # ys) = x @ sep @ str_join sep (y # ys)"

definition py_print :: "string \<Rightarrow> world \<Rightarrow> world" where
  "py_print s w = w\<lparr>console := console w @ [Line s]\<rparr>"

text \<open>
  \<open>_get_request(url, params)\<close>, lines 56 to 72. The result is the decoded body, or
  Python's \<open>None\<close> (\<open>JNull\<close>) after a diagnostic when the body does not decode or the
  status is not 200 (\<open>requests.codes.ok\<close>).
\<close>

definition get_request ::
  "server \<Rightarrow> nat \<Rightarrow> string \<Rightarrow> params option \<Rightarrow> world \<Rightarrow> (error + json) \<times> world" where
  "get_request srv self url ps w =
     (let p = (case ps of None \<Rightarrow> self_fields self w | Some q \<Rightarrow> q);
          w1 = w\<lparr>sent := sent w @ [(url, p)]\<rparr>
      in case srv url p of
           Inl e \<Rightarrow> (Inl e, w1)
         | Inr resp \<Rightarrow>
             if status_code resp = 200 then
               (case body_json resp of
                  Inl ex \<Rightarrow> (Inr JNull, py_print (''JSONDecodeError (get_all): '' @ ex) w1)
                | Inr result \<Rightarrow> (Inr result, w1))
             else
               (Inr JNull,
                py_print (''Error response url: '' @ url @ '': '' @ body_text resp) w1))"

text \<open>
  The tail every entry point but \<open>get_by_code\<close> ends with:
  \<open>if res: self._print_table(res); return True\<close>, then \<open>return False\<close>. An exception of
  \<open>_print_table\<close> passes through. The decoded records are local to the call, so their
  state after the printing is dropped.
\<close>

definition show_result :: "json \<Rightarrow> world \<Rightarrow> (error + bool) \<times> world" where
  "show_result res w =
     (if truthy res then
        (case print_decoded res of
           (Inl e, _, out) \<Rightarrow> (Inl e, w\<lparr>console := console w @ out\<rparr>)
         | (Inr _, _, out) \<Rightarrow> (Inr True, w\<lparr>console := console w @ out\<rparr>))
      else (Inr False, w))"

text \<open>The entry points whose request carries the default parameters
  (\<open>res = self._get_request(url)\<close>) all have this shape, the url apart.\<close>

definition default_query :: "server \<Rightarrow> nat \<Rightarrow> string \<Rightarrow> world \<Rightarrow> (error + bool) \<times> world" where
  "default_query srv self url w =
     (case get_request srv self url None w of
        (Inl e, w1) \<Rightarrow> (Inl e, w1)
      | (Inr res, w1) \<Rightarrow> show_result res w1)"

subsection \<open>The twelve entry points\<close>

text \<open>\<open>get_all\<close>, lines 81 to 86.\<close>

definition get_all :: "server \<Rightarrow> nat \<Rightarrow> world \<Rightarrow> (error + bool) \<times> world" where
  "get_all srv self w =
     (let url = str_join ''/'' [main_url, ''all'']
      in case get_request srv self url None w of
           (Inl e, w1) \<Rightarrow> (Inl e, w1)
         | (Inr res, w1) \<Rightarrow> show_result res w1)"

text \<open>\<open>get_by_name\<close>, lines 98 to 103.\<close>

definition get_by_name :: "server \<Rightarrow> nat \<Rightarrow> string \<Rightarrow> world \<Rightarrow> (error + bool) \<times> world" where
  "get_by_name srv self name w =
     (let url = str_join ''/'' [main_url, ''name'', name]
      in case get_request srv self url None w of
           (Inl e, w1) \<Rightarrow> (Inl e, w1)
         | (Inr res, w1) \<Rightarrow> show_result res w1)"

text \<open>\<open>get_by_fullname\<close>, lines 116 to 122: the item assignment of line 117 comes first,
  and the request is handed the very dict it has just changed.\<close>

definition get_by_fullname :: "server \<Rightarrow> nat \<Rightarrow> string \<Rightarrow> world \<Rightarrow> (error + bool) \<times> world" where
  "get_by_fullname srv self fullname w =
     (let url = str_join ''/'' [main_url, ''name'', fullname];
          w0 = self_fields_setitem self ''fullText'' (QStr ''true'') w
      in case get_request srv self url (Some (self_fields self w0)) w0 of
           (Inl e, w1) \<Rightarrow> (Inl e, w1)
         | (Inr res, w1) \<Rightarrow> show_result res w1)"

text \<open>\<open>str(n)\<close> for an int.\<close>

fun str_nat :: "nat \<Rightarrow> string" where
  "str_nat n = (if n < 10 then [char_of (48 + n)] else str_nat (n div 10) @ [char_of (48 + n mod 10)])"

definition str_int :: "int \<Rightarrow> string" where
  "str_int i = (if i < 0 then CHR ''-'' # str_nat (nat (- i)) else str_nat (nat i))"

text \<open>\<open>get_by_code\<close>, lines 135 to 146: an int code is turned into a str, and a result
  that is not a list is wrapped in one before it is printed.\<close>

definition get_by_code :: "server \<Rightarrow> nat \<Rightarrow> int + string \<Rightarrow> world \<Rightarrow> (error + bool) \<times> world" where
  "get_by_code srv self code w =
     (let code' = (case code of Inl n \<Rightarrow> str_int n | Inr c \<Rightarrow> c);
          url = str_join ''/'' [main_url, ''alpha'', code']
      in case get_request srv self url None w of
           (Inl e, w1) \<Rightarrow> (Inl e, w1)
         | (Inr res, w1) \<Rightarrow>
             if truthy res then
               (case (case res of JArr cs \<Rightarrow> print_decoded res | _ \<Rightarrow> print_decoded (JArr [res])) of
                  (Inl e, _, out) \<Rightarrow> (Inl e, w1\<lparr>console := console w1 @ out\<rparr>)
                | (Inr _, _, out) \<Rightarrow> (Inr True, w1\<lparr>console := console w1 @ out\<rparr>))
             else (Inr False, w1))"

text \<open>\<open>get_by_listcodes\<close>, lines 158 to 164.\<close>

definition get_by_listcodes :: "server \<Rightarrow> nat \<Rightarrow> param list \<Rightarrow> world \<Rightarrow> (error + bool) \<times> world" where
  "get_by_listcodes srv self code w =
     (let url = str_join ''/'' [main_url, ''alpha''];
          w0 = self_fields_setitem self ''codes'' (QList code) w
      in case get_request srv self url (Some (self_fields self w0)) w0 of
           (Inl e, w1) \<Rightarrow> (Inl e, w1)
         | (Inr res, w1) \<Rightarrow> show_result res w1)"

text \<open>\<open>get_by_currency\<close>, lines 176 to 181.\<close>

definition get_by_currency :: "server \<Rightarrow> nat \<Rightarrow> string \<Rightarrow> world \<Rightarrow> (error + bool) \<times> world" where
  "get_by_currency srv self code w =
     (let url = str_join ''/'' [main_url, ''currency'', code]
      in case get_request srv self url None w of
           (Inl e, w1) \<Rightarrow> (Inl e, w1)
         | (Inr res, w1) \<Rightarrow> show_result res w1)"

text \<open>\<open>get_by_demonym\<close>, lines 193 to 198.\<close>

definition get_by_demonym :: "server \<Rightarrow> nat \<Rightarrow> string \<Rightarrow> world \<Rightarrow> (error + bool) \<times> world" where
  "get_by_demonym srv self demonym w =
     (let url = str_join ''/'' [main_url, ''demonym'', demonym]
      in case get_request srv self url None w of
           (Inl e, w1) \<Rightarrow> (Inl e, w1)
         | (Inr res, w1) \<Rightarrow> show_result res w1)"

text \<open>\<open>get_by_lang\<close>, lines 210 to 215.\<close>

definition get_by_lang :: "server \<Rightarrow> nat \<Rightarrow> string \<Rightarrow> world \<Rightarrow> (error + bool) \<times> world" where
  "get_by_lang srv self lang w =
     (let url = str_join ''/'' [main_url, ''lang'', lang]
      in case get_request srv self url None w of
           (Inl e, w1) \<Rightarrow> (Inl e, w1)
         | (Inr res, w1) \<Rightarrow> show_result res w1)"

text \<open>\<open>get_by_capital\<close>, lines 228 to 233.\<close>

definition get_by_capital :: "server \<Rightarrow> nat \<Rightarrow> string \<Rightarrow> world \<Rightarrow> (error + bool) \<times> world" where
  "get_by_capital srv self capital w =
     (let url = str_join ''/'' [main_url, ''capital'', capital]
      in case get_request srv self url None w of
           (Inl e, w1) \<Rightarrow> (Inl e, w1)
         | (Inr res, w1) \<Rightarrow> show_result res w1)"

text \<open>\<open>get_by_region\<close>, lines 245 to 250.\<close>

definition get_by_region :: "server \<Rightarrow> nat \<Rightarrow> string \<Rightarrow> world \<Rightarrow> (error + bool) \<times> world" where
  "get_by_region srv self region w =
     (let url = str_join ''/'' [main_url, ''region'', region]
      in case get_request srv self url None w of
           (Inl e, w1) \<Rightarrow> (Inl e, w1)
         | (Inr res, w1) \<Rightarrow> show_result res w1)"

text \<open>\<open>get_by_subregion\<close>, lines 262 to 267.\<close>

definition get_by_subregion :: "server \<Rightarrow> nat \<Rightarrow> string \<Rightarrow> world \<Rightarrow> (error + bool) \<times> world" where
  "get_by_subregion srv self subregion w =
     (let url = str_join ''/'' [main_url, ''subregion'', subregion]
      in case get_request srv self url None w of
           (Inl e, w1) \<Rightarrow> (Inl e, w1)
         | (Inr res, w1) \<Rightarrow> show_result res w1)"

text \<open>\<open>get_by_translation\<close>, lines 278 to 283.\<close>

definition get_by_translation :: "server \<Rightarrow> nat \<Rightarrow> string \<Rightarrow> world \<Rightarrow> (error + bool) \<times> world" where
  "get_by_translation srv self translation w =
     (let url = str_join ''/'' [main_url, ''translation'', translation]
      in case get_request srv self url None w of
           (Inl e, w1) \<Rightarrow> (Inl e, w1)
         | (Inr res, w1) \<Rightarrow> show_result res w1)"

text \<open>A call of an entry point, as a caller writes it, and its execution on an
  instance.\<close>

datatype call =
    GetAll
  | GetByName string
  | GetByFullname string
  | GetByCode "int + string"
  | GetByListcodes "param list"
  | GetByCurrency string
  | GetByDemonym string
  | GetByLang string
  | GetByCapital string
  | GetByRegion string
  | GetBySubregion string
  | GetByTranslation string

fun invoke :: "server \<Rightarrow> nat \<Rightarrow> call \<Rightarrow> world \<Rightarrow> (error + bool) \<times> world" where
  "invoke srv self GetAll w = get_all srv self w"
| "invoke srv self (GetByName x) w = get_by_name srv self x w"
| "invoke srv self (GetByFullname x) w = get_by_fullname srv self x w"
| "invoke srv self (GetByCode x) w = get_by_code srv self x w"
| "invoke srv self (GetByListcodes x) w = get_by_listcodes srv self x w"
| "invoke srv self (GetByCurrency x) w = get_by_currency srv self x w"
| "invoke srv self (GetByDemonym x) w = get_by_demonym srv self x w"
| "invoke srv self (GetByLang x) w = get_by_lang srv self x w"
| "invoke srv self (GetByCapital x) w = get_by_capital srv self x w"
| "invoke srv self (GetByRegion x) w = get_by_region srv self x w"
| "invoke srv self (GetBySubregion x) w = get_by_subregion srv self x w"
| "invoke srv self (GetByTranslation x) w = get_by_translation srv self x w"

text \<open>The calls whose request carries the default parameters: all but
  \<open>get_by_fullname\<close> and \<open>get_by_listcodes\<close>, which pass \<open>params\<close> themselves.\<close>

fun default_call :: "call \<Rightarrow> bool" where
  "default_call (GetByFullname x) = False"
| "default_call (GetByListcodes x) = False"
| "default_call c = True"

text \<open>A caller that makes one call after the other, each on an instance of its
  choice, and goes on after an exception (it catches it): the state it ends in.\<close>

fun run_calls :: "server \<Rightarrow> (nat \<times> call) list \<Rightarrow> world \<Rightarrow> world" where
  "run_calls srv [] w = w"
| "run_calls srv ((self, c) # cs) w = run_calls srv cs (snd (invoke srv self c w))"

section \<open>ebay.py: the page extractor\<close>

subsection \<open>Python values and \<open>json.dumps\<close>\<close>

text \<open>
  The values a \<open>data\<close> dict can hold here: \<open>None\<close>, bools, ints, strs, lists and dicts
  with str keys, which JSON can express, and bytes, which it cannot. Characters are
  the 8-bit ones.
\<close>

datatype pyval =
    PNone
  | PBool bool
  | PInt int
  | PStr string
  | PBytes string
  | PList "pyval list"
  | PDict "(string \<times> pyval) list"

text \<open>Whether the encoder accepts a value: it raises \<open>TypeError\<close> on reaching an object
  that is not JSON serializable.\<close>

fun serializable :: "pyval \<Rightarrow> bool" where
  "serializable (PBytes b) = False"
| "serializable (PList xs) = list_all serializable xs"
| "serializable (PDict d) = list_all (\<lambda>kv. serializable (snd kv)) d"
| "serializable v = True"

definition hex_digit :: "nat \<Rightarrow> char" where
  "hex_digit n = (if n < 10 then char_of (48 + n) else char_of (87 + n))"

text \<open>One character inside a JSON string, with \<open>ensure_ascii\<close> left at its default:
  the quote, the backslash and everything outside the printable ASCII range are
  escaped.\<close>

definition escape_char :: "char \<Rightarrow> string" where
  "escape_char c =
     (if c = CHR 0x22 then [CHR 0x5C, CHR 0x22]
      else if c = CHR 0x5C then [CHR 0x5C, CHR 0x5C]
      else if c = CHR 0x0A then [CHR 0x5C, CHR ''n'']
      else if c = CHR 0x0D then [CHR 0x5C, CHR ''r'']
      else if c = CHR 0x09 then [CHR 0x5C, CHR ''t'']
      else if c = CHR 0x08 then [CHR 0x5C, CHR ''b'']
      else if c = CHR 0x0C then [CHR 0x5C, CHR ''f'']
      else if (of_char c :: nat) < 32 \<or> 126 < (of_char c :: nat) then
        [CHR 0x5C, CHR ''u'', CHR ''0'', CHR ''0'',
         hex_digit (of_char c div 16), hex_digit (of_char c mod 16)]
      else [c])"

definition encode_str :: "string \<Rightarrow> string" where
  "encode_str s = CHR 0x22 # concat (map escape_char s) @ [CHR 0x22]"

text \<open>A line break followed by the indentation of nesting level \<open>l\<close> (\<open>indent=4\<close>).\<close>

definition newline_indent :: "nat \<Rightarrow> string" where
  "newline_indent l = CHR 0x0A # replicate (4 * l) CHR '' ''"

text \<open>The text of a serializable value at nesting level \<open>l\<close>: items one per line,
  separated by a comma, keys and values by a colon and a space, empty containers
  closed at once.\<close>

fun encode_at :: "nat \<Rightarrow> pyval \<Rightarrow> string" where
  "encode_at l PNone = ''null''"
| "encode_at l (PBool b) = (if b then ''true'' else ''false'')"
| "encode_at l (PInt i) = str_int i"
| "encode_at l (PStr s) = encode_str s"
| "encode_at l (PBytes b) = []"
| "encode_at l (PList xs) =
     (if xs = [] then ''[]''
      else ''['' @ newline_indent (Suc l)
           @ str_join ('','' @ newline_indent (Suc l)) (map (encode_at (Suc l)) xs)
           @ newline_indent l @ '']'')"
| "encode_at l (PDict d) =
     (if d = [] then ''{}''
      else ''{'' @ newline_indent (Suc l)
           @ str_join ('','' @ newline_indent (Suc l))
               (map (\<lambda>kv. encode_str (fst kv) @ '': '' @ encode_at (Suc l) (snd kv)) d)
           @ newline_indent l @ ''}'')"

text \<open>\<open>json.dumps(data, indent=4)\<close>: the text, or \<open>TypeError\<close>; it decodes nothing, so it
  never raises \<open>JSONDecodeError\<close>.\<close>

definition json_dumps :: "pyval \<Rightarrow> error + string" where
  "json_dumps data = (if serializable data then Inr (encode_at 0 data) else Inl TypeError)"

subsection \<open>The browser, the page and the outputs\<close>

text \<open>
  What the script changes: how often \<open>self.browser.quit()\<close> has run, what it has
  printed, and the files written (a path to its content). A printed item is a text,
  or, for \<open>print(f"...{ex}")\<close>, the text before \<open>{ex}\<close> and the exception whose own
  text, as the library words it, follows.
\<close>

datatype written =
    Text string
  | Report string error

record session =
  quit_calls :: nat
  printed_lines :: "written list"
  files :: "string \<Rightarrow> string option"

text \<open>The state right after \<open>EBay()\<close> on a machine with the given files.\<close>

definition new_session :: "(string \<Rightarrow> string option) \<Rightarrow> session" where
  "new_session fs = \<lparr>quit_calls = 0, printed_lines = [], files = fs\<rparr>"

text \<open>The outcome of locating an element: found (with what the script reads from it),
  not in the page (with the message of the driver's \<open>NoSuchElementException\<close>), or a
  failure of the driver other than that.\<close>

datatype 'a lookup = Found 'a | Absent string | Broken

text \<open>
  A page as the script sees it. \<open>title\<close>: the element of class
  \<open>x-item-title__mainTitle\<close>, present from some number of time units after the page
  was requested, and its text. \<open>carousel\<close>: the image container and, per \<open>img\<close> element
  inside, its \<open>data-zoom-src\<close> attribute (\<open>None\<close> when the element has none). \<open>price\<close>
  and \<open>shipping\<close>: the texts. \<open>seller\<close>: the element's \<open>title\<close> attribute.
\<close>

record page =
  title :: "(nat \<times> string) lookup"
  carousel :: "string option list lookup"
  price :: "string lookup"
  seller :: "string option lookup"
  shipping :: "string lookup"

text \<open>The web: the page a url loads, or \<open>None\<close> when loading it fails.\<close>

type_synonym web = "string \<Rightarrow> page option"

text \<open>\<open>self.browser.get(url)\<close>: raises when the browser has been quit or the page does
  not load.\<close>

definition browser_get :: "web \<Rightarrow> string \<Rightarrow> session \<Rightarrow> error + page" where
  "browser_get net url s =
     (if 0 < quit_calls s then Inl WebDriverException
      else case net url of None \<Rightarrow> Inl WebDriverException | Some p \<Rightarrow> Inr p)"

definition browser_quit :: "session \<Rightarrow> session" where
  "browser_quit s = s\<lparr>quit_calls := Suc (quit_calls s)\<rparr>"

text \<open>\<open>WebDriverWait(browser, timeout).until(presence_of_element_located(...))\<close>: the
  element once it is present, \<open>TimeoutException\<close> when the time is up before.\<close>

definition wait_until_present :: "nat \<Rightarrow> (nat \<times> 'a) lookup \<Rightarrow> error + 'a" where
  "wait_until_present timeout l =
     (case l of
        Found (t, x) \<Rightarrow> if t \<le> timeout then Inr x else Inl TimeoutException
      | Absent m \<Rightarrow> Inl TimeoutException
      | Broken \<Rightarrow> Inl WebDriverException)"

text \<open>\<open>browser.find_element(...)\<close> and the read that follows it.\<close>

definition find_element :: "'a lookup \<Rightarrow> error + 'a" where
  "find_element l =
     (case l of
        Found x \<Rightarrow> Inr x
      | Absent m \<Rightarrow> Inl (NoSuchElementException (Some m))
      | Broken \<Rightarrow> Inl WebDriverException)"

definition say :: "written \<Rightarrow> session \<Rightarrow> session" where
  "say line s = s\<lparr>printed_lines := printed_lines s @ [line]\<rparr>"

text \<open>An attribute read by \<open>get_attribute\<close>: a str, or \<open>None\<close>.\<close>

definition attr_val :: "string option \<Rightarrow> pyval" where
  "attr_val a = (case a of None \<Rightarrow> PNone | Some v \<Rightarrow> PStr v)"

subsection \<open>\<open>scrapper\<close>\<close>

text \<open>
  The body of the outer \<open>try\<close>, lines 79 to 99: the wait (a \<open>TimeoutException\<close> is
  reported and replaced by a \<open>NoSuchElementException\<close> raised without a message, line
  83), the reads in the order of the source, and the dict.
\<close>

definition scrapper_try :: "page \<Rightarrow> string \<Rightarrow> session \<Rightarrow> (error + pyval) \<times> session" where
  "scrapper_try p url s =
     (case wait_until_present 10 (title p) of
        Inl e \<Rightarrow>
          if e = TimeoutException
          then (Inl (NoSuchElementException None), say (Text ''TimeoutException for page'') s)
          else (Inl e, s)
      | Inr name \<Rightarrow>
          (case find_element (carousel p) of
             Inl e \<Rightarrow> (Inl e, s)
           | Inr imgs \<Rightarrow>
               (let path_img = map attr_val imgs
                in case find_element (price p) of
                     Inl e \<Rightarrow> (Inl e, s)
                   | Inr price_text \<Rightarrow>
                       (case find_element (seller p) of
                          Inl e \<Rightarrow> (Inl e, s)
                        | Inr seller_title \<Rightarrow>
                            (case find_element (shipping p) of
                               Inl e \<Rightarrow> (Inl e, s)
                             | Inr shipping_cost \<Rightarrow>
                                 (Inr (PDict
                                    [(''name'', PStr name),
                                     (''path_img'', PList path_img),
                                     (''current_url'', PStr url),
                                     (''price'', PStr price_text),
                                     (''seller'', attr_val seller_title),
                                     (''shipping_cost'', PStr shipping_cost)]), s))))))"

text \<open>
  \<open>scrapper(url)\<close>, lines 76 to 106. Line 76 stands before the \<open>try\<close>: an exception of
  \<open>browser.get\<close> leaves the method at once. Inside, a \<open>NoSuchElementException\<close> is
  reported by line 101 (\<open>"NoSuchElementException: "\<close> followed by the exception's
  own text) and \<open>None\<close> returned, any other exception passes through, and \<open>finally\<close>
  quits the browser on all three ways out.
\<close>

definition scrapper :: "web \<Rightarrow> string \<Rightarrow> session \<Rightarrow> (error + pyval) \<times> session" where
  "scrapper net url s =
     (case browser_get net url s of
        Inl e \<Rightarrow> (Inl e, s)
      | Inr p \<Rightarrow>
          (case scrapper_try p url s of
             (Inl e, s1) \<Rightarrow>
               (case e of
                  NoSuchElementException m \<Rightarrow>
                    (Inr PNone, browser_quit (say (Report ''NoSuchElementException: '' e) s1))
                | _ \<Rightarrow> (Inl e, browser_quit s1))
           | (Inr data, s1) \<Rightarrow> (Inr data, browser_quit s1)))"

subsection \<open>\<open>write_to_file\<close> and \<open>write_to_console\<close>\<close>

definition path_file :: string where
  "path_file = ''temp.json''"

text \<open>
  \<open>write_to_file(data)\<close>, lines 49 to 53: opening the file for writing empties it;
  the text is written if \<open>json.dumps\<close> returns one; the handler is for
  \<open>json.JSONDecodeError\<close> alone, so any other exception leaves the method.
\<close>

definition write_to_file :: "pyval \<Rightarrow> session \<Rightarrow> (error + unit) \<times> session" where
  "write_to_file data s =
     (let s1 = s\<lparr>files := (files s)(path_file \<mapsto> [])\<rparr>
      in case json_dumps data of
           Inl e \<Rightarrow>
             if e = JSONDecodeError then (Inr (), say (Report ''JSONDecodeError '' e) s1)
             else (Inl e, s1)
         | Inr txt \<Rightarrow> (Inr (), s1\<lparr>files := (files s1)(path_file \<mapsto> txt)\<rparr>))"

text \<open>\<open>write_to_console(data)\<close>, lines 62 to 65.\<close>

definition write_to_console :: "pyval \<Rightarrow> session \<Rightarrow> (error + unit) \<times> session" where
  "write_to_console data s =
     (case json_dumps data of
        Inl e \<Rightarrow>
          if e = JSONDecodeError then (Inr (), say (Report ''JSONDecodeError '' e) s)
          else (Inl e, s)
      | Inr txt \<Rightarrow> (Inr (), say (Text txt) s))"

section \<open>Vocabulary of the properties and example data\<close>

text \<open>
  A record as the country API returns it for the default field selection: a dict
  whose \<open>name\<close> is a dict with a \<open>common\<close> entry, whose \<open>capital\<close> is a list, and whose
  \<open>flags\<close> is a dict with a \<open>png\<close> entry.
\<close>

fun has_entry :: "string \<Rightarrow> json option \<Rightarrow> bool" where
  "has_entry k (Some (JObj d)) = (map_of d k \<noteq> None)"
| "has_entry k v = False"

fun is_list :: "json option \<Rightarrow> bool" where
  "is_list (Some (JArr cs)) = True"
| "is_list v = False"

fun well_formed :: "json \<Rightarrow> bool" where
  "well_formed (JObj d) =
     (has_entry ''common'' (map_of d ''name'')
      \<and> is_list (map_of d ''capital'')
      \<and> has_entry ''png'' (map_of d ''flags''))"
| "well_formed r = False"

text \<open>\<open>r[a][b]\<close>, the read of a nested entry.\<close>

definition nested :: "json \<Rightarrow> string \<Rightarrow> string \<Rightarrow> error + json" where
  "nested r a b = (case py_getitem r a of Inl e \<Rightarrow> Inl e | Inr x \<Rightarrow> py_getitem x b)"

text \<open>Three records: one capital, none, and three.\<close>

definition germany :: json where
  "germany =
     JObj [(''name'', JObj [(''common'', JStr ''Germany''),
                            (''official'', JStr ''Federal Republic of Germany'')]),
           (''capital'', JArr [JStr ''Berlin'']),
           (''flags'', JObj [(''png'', JStr ''https://flagcdn.com/w320/de.png''),
                             (''svg'', JStr ''https://flagcdn.com/de.svg'')])]"

definition antarctica :: json where
  "antarctica =
     JObj [(''name'', JObj [(''common'', JStr ''Antarctica''),
                            (''official'', JStr ''Antarctica'')]),
           (''capital'', JArr []),
           (''flags'', JObj [(''png'', JStr ''https://flagcdn.com/w320/aq.png''),
                             (''svg'', JStr ''https://flagcdn.com/aq.svg'')])]"

definition south_africa :: json where
  "south_africa =
     JObj [(''name'', JObj [(''common'', JStr ''South Africa''),
                            (''official'', JStr ''Republic of South Africa'')]),
           (''capital'', JArr [JStr ''Pretoria'', JStr ''Bloemfontein'', JStr ''Cape Town'']),
           (''flags'', JObj [(''png'', JStr ''https://flagcdn.com/w320/za.png''),
                             (''svg'', JStr ''https://flagcdn.com/za.svg'')])]"

text \<open>A heap with the three records at the addresses 0, 1 and 2 (and the last one at
  every other address).\<close>

definition three_countries :: heap where
  "three_countries = (\<lambda>a. if a = 0 then germany else if a = 1 then antarctica else south_africa)"

text \<open>A remote end that answers every request with status 200 and the given decoded
  body, and one that answers every request with status 404.\<close>

definition answering :: "json \<Rightarrow> server" where
  "answering res = (\<lambda>url ps. Inr \<lparr>status_code = 200, body_text = [], body_json = Inr res\<rparr>)"

definition not_found :: server where
  "not_found =
     (\<lambda>url ps. Inr \<lparr>status_code = 404, body_text = ''Not Found'', body_json = Inl ''no JSON''\<rparr>)"

text \<open>The url the script is run on (line 11), a product page with every element in
  place, and a web that serves this page at that url and nothing elsewhere.\<close>

definition TEST_URL :: string where
  "TEST_URL = ''https://www.ebay.com/itm/404265004322''"

definition product_page :: page where
  "product_page =
     \<lparr>title = Found (3, ''Film camera''),
      carousel = Found [Some ''https://i.ebayimg.com/images/g/a/s-l1600.jpg'',
                        Some ''https://i.ebayimg.com/images/g/b/s-l1600.jpg'',
                        None],
      price = Found ''US $25.00'',
      seller = Found (Some ''camera_shop''),
      shipping = Found ''US $5.00''\<rparr>"

definition one_page_web :: web where
  "one_page_web = (\<lambda>url. if url = TEST_URL then Some product_page else None)"

text \<open>A small record that JSON can express, and one that it cannot.\<close>

definition small_record :: pyval where
  "small_record = PDict [(''name'', PStr ''a''), (''path_img'', PList [])]"

definition bytes_record :: pyval where
  "bytes_record = PDict [(''name'', PBytes ''a'')]"

section \<open>Properties of the lookup client\<close>

subsection \<open>The loop body on one record\<close>

lemma loop_body_record:
  assumes "map_of d ''name'' = Some (JObj n)" and "map_of n ''common'' = Some c"
    and "map_of d ''capital'' = Some (JArr cs)"
    and "map_of d ''flags'' = Some (JObj f)" and "map_of f ''png'' = Some p"
  shows "loop_body (JObj d) =
           (None, JObj (AList.update ''flags'' p
                          (if length cs = 0
                           then AList.update ''capital'' (JStr ''None'') (AList.update ''name'' c d)
                           else if length cs = 1
                           then AList.update ''capital'' (hd cs) (AList.update ''name'' c d)
                           else AList.update ''name'' c d)))"
proof (cases cs)
  case Nil
  with assms show ?thesis
    by (simp add: loop_body_def set_name_def set_capital_def set_flags_def update_conv')
next
  case (Cons x xs)
  with assms show ?thesis
    by (cases xs)
       (simp_all add: loop_body_def set_name_def set_capital_def set_flags_def update_conv')
qed

subsection \<open>\<open>_print_table\<close> on well-formed records\<close>

lemma well_formedD:
  "well_formed r \<Longrightarrow>
     \<exists>d n c cs f p. r = JObj d \<and> map_of d ''name'' = Some (JObj n) \<and> map_of n ''common'' = Some c
        \<and> map_of d ''capital'' = Some (JArr cs)
        \<and> map_of d ''flags'' = Some (JObj f) \<and> map_of f ''png'' = Some p"
  by (cases r) (auto elim!: has_entry.elims is_list.elims)

lemma loop_body_well_formed: "well_formed r \<Longrightarrow> fst (loop_body r) = None"
  using well_formedD[of r] by (auto simp: loop_body_record)

text \<open>On distinct addresses of well-formed records the loop raises nothing, rewrites
  each of them once and leaves every other object alone.\<close>

lemma for_countries_distinct:
  assumes "distinct data" and "\<forall>a\<in>set data. well_formed (h a)"
  shows "for_countries data h =
           (None, \<lambda>a. if a \<in> set data then snd (loop_body (h a)) else h a)"
  using assms
proof (induction data arbitrary: h)
  case Nil
  show ?case by simp
next
  case (Cons a rest)
  have "fst (loop_body (h a)) = None"
    using Cons.prems(2) by (simp add: loop_body_well_formed)
  then obtain c' where c: "loop_body (h a) = (None, c')"
    by (cases "loop_body (h a)") auto
  have a: "a \<notin> set rest" and d: "distinct rest"
    using Cons.prems(1) by simp_all
  have "\<forall>b\<in>set rest. well_formed ((h(a := c')) b)"
    using Cons.prems(2) a by auto
  from Cons.IH[OF d this]
  have "for_countries rest (h(a := c')) =
          (None, \<lambda>b. if b \<in> set rest then snd (loop_body ((h(a := c')) b)) else (h(a := c')) b)" .
  moreover have "(\<lambda>b. if b \<in> set rest then snd (loop_body ((h(a := c')) b)) else (h(a := c')) b) =
                 (\<lambda>b. if b \<in> set (a # rest) then snd (loop_body (h b)) else h b)"
    using a c by (auto simp: fun_eq_iff)
  ultimately show ?case using c by simp
qed

lemma print_table_distinct:
  assumes "data \<noteq> []" and "distinct data" and "\<forall>a\<in>set data. well_formed (h a)"
  shows "print_table data h =
           (Inr (), (\<lambda>a. if a \<in> set data then snd (loop_body (h a)) else h a),
            [Table [''Name'', ''Capital city'', ''Flag'']
               (map (\<lambda>a. table_row (snd (loop_body (h a)))) data),
             Line [CHR 0x0A]])"
  using assms by (simp add: print_table_def for_countries_distinct)

text \<open>A freshly decoded list of well-formed records.\<close>

lemma print_decoded_well_formed:
  assumes "cs \<noteq> []" and "list_all well_formed cs"
  shows "print_decoded (JArr cs) =
           (Inr (), JArr (map (\<lambda>r. snd (loop_body r)) cs),
            [Table [''Name'', ''Capital city'', ''Flag'']
               (map (\<lambda>r. table_row (snd (loop_body r))) cs),
             Line [CHR 0x0A]])"
proof -
  let ?h = "\<lambda>a. if a < length cs then cs ! a else JNull"
  let ?data = "[0..<length cs]"
  have ne: "?data \<noteq> []" using assms(1) by simp
  have wf: "\<forall>a\<in>set ?data. well_formed (?h a)"
    using assms(2) by (simp add: list_all_length)
  have rows: "map (\<lambda>a. table_row (snd (loop_body (?h a)))) ?data =
              map (\<lambda>r. table_row (snd (loop_body r))) cs"
    by (rule nth_equalityI) simp_all
  have objs: "map (\<lambda>a. if a \<in> set ?data then snd (loop_body (?h a)) else ?h a) ?data =
              map (\<lambda>r. snd (loop_body r)) cs"
    by (rule nth_equalityI) simp_all
  show ?thesis
    unfolding print_decoded_def
    by (simp only: json.case print_table_distinct[OF ne distinct_upt wf] prod.case rows objs)
qed

lemma entry_smaller: "map_of d k = Some c \<Longrightarrow> size c < size (JObj d)"
  by (induction d) (auto split: if_splits)

lemma entry_differs: "map_of d k = Some c \<Longrightarrow> c \<noteq> JObj d"
  using entry_smaller[of d k c] by auto

lemma loop_body_reads:
  assumes "well_formed r"
  shows "py_getitem (snd (loop_body r)) ''name'' = nested r ''name'' ''common''
       \<and> py_getitem (snd (loop_body r)) ''flags'' = nested r ''flags'' ''png''
       \<and> py_getitem (snd (loop_body r)) ''name'' \<noteq> py_getitem r ''name''
       \<and> py_getitem (snd (loop_body r)) ''flags'' \<noteq> py_getitem r ''flags''
       \<and> (\<forall>caps. py_getitem r ''capital'' = Inr (JArr caps) \<longrightarrow>
              py_getitem (snd (loop_body r)) ''capital'' =
                Inr (case caps of [] \<Rightarrow> JStr ''None'' | [x] \<Rightarrow> x | x # y # zs \<Rightarrow> JArr caps))"
proof -
  from well_formedD[OF assms] obtain d n c cs f p where
    r: "r = JObj d" and n: "map_of d ''name'' = Some (JObj n)" and c: "map_of n ''common'' = Some c"
    and cs: "map_of d ''capital'' = Some (JArr cs)"
    and f: "map_of d ''flags'' = Some (JObj f)" and p: "map_of f ''png'' = Some p"
    by blast
  have c': "c \<noteq> JObj n" and p': "p \<noteq> JObj f"
    using c p by (auto dest: entry_differs)
  show ?thesis
  proof (cases cs)
    case Nil
    with r n c cs f p c' p' show ?thesis
      by (simp add: loop_body_record nested_def update_conv')
  next
    case (Cons x xs)
    with r n c cs f p c' p' show ?thesis
      by (cases xs) (simp_all add: loop_body_record nested_def update_conv')
  qed
qed

text \<open>
  Claim C7. Let \<open>_print_table\<close> be given a list of distinct, well-formed record
  objects. Then it returns normally and prints one table with one row per record,
  in order; and for every record of the list, with its name object holding the
  common name \<open>c\<close>, its capital list \<open>cs\<close> and its flags object holding the PNG URL
  \<open>p\<close>, the record's row is \<open>c\<close>, then \<open>"None"\<close> if \<open>cs\<close> is empty, the sole element
  if \<open>cs\<close> has exactly one, and \<open>cs\<close> unchanged if it has more, then \<open>p\<close>; these are
  also the values the record holds after the call.
\<close>

theorem print_table_normalises:
  assumes "distinct data" and "\<forall>a\<in>set data. well_formed (h a)"
    and "i < length data" and "h (data ! i) = JObj d"
    and "map_of d ''name'' = Some (JObj n)" and "map_of n ''common'' = Some c"
    and "map_of d ''capital'' = Some (JArr cs)"
    and "map_of d ''flags'' = Some (JObj f)" and "map_of f ''png'' = Some p"
  shows "\<exists>h' rows.
           print_table data h =
             (Inr (), h', [Table [''Name'', ''Capital city'', ''Flag''] rows, Line [CHR 0x0A]])
           \<and> length rows = length data
           \<and> rows ! i =
               [c, (case cs of [] \<Rightarrow> JStr ''None'' | [x] \<Rightarrow> x | x # y # zs \<Rightarrow> JArr cs), p]
           \<and> (\<exists>d'. h' (data ! i) = JObj d'
                  \<and> map_of d' ''name'' = Some c
                  \<and> map_of d' ''capital'' =
                      Some (case cs of [] \<Rightarrow> JStr ''None'' | [x] \<Rightarrow> x | x # y # zs \<Rightarrow> JArr cs)
                  \<and> map_of d' ''flags'' = Some p)"
proof -
  let ?cap = "case cs of [] \<Rightarrow> JStr ''None'' | [x] \<Rightarrow> x | x # y # zs \<Rightarrow> JArr cs"
  let ?h' = "\<lambda>a. if a \<in> set data then snd (loop_body (h a)) else h a"
  let ?rows = "map (\<lambda>a. table_row (snd (loop_body (h a)))) data"
  have ne: "data \<noteq> []" using assms(3) by auto
  have pt: "print_table data h =
              (Inr (), ?h', [Table [''Name'', ''Capital city'', ''Flag''] ?rows, Line [CHR 0x0A]])"
    by (rule print_table_distinct[OF ne assms(1,2)])
  have "\<exists>d'. snd (loop_body (JObj d)) = JObj d' \<and> map_of d' ''name'' = Some c
               \<and> map_of d' ''capital'' = Some ?cap \<and> map_of d' ''flags'' = Some p"
  proof (cases cs)
    case Nil
    with assms(5-9) show ?thesis by (simp add: loop_body_record update_conv')
  next
    case (Cons x xs)
    with assms(5-9) show ?thesis
      by (cases xs) (simp_all add: loop_body_record update_conv')
  qed
  then obtain d' where d': "snd (loop_body (JObj d)) = JObj d'"
    and nm: "map_of d' ''name'' = Some c" and cp: "map_of d' ''capital'' = Some ?cap"
    and fl: "map_of d' ''flags'' = Some p"
    by blast
  have row: "?rows ! i = [c, ?cap, p]"
    using assms(3,4) d' nm cp fl by (simp add: table_row_def)
  have obj: "?h' (data ! i) = JObj d'"
    using assms(3,4) d' by simp
  have len: "length ?rows = length data" by simp
  from pt len row obj nm cp fl show ?thesis by blast
qed

theorem print_table_normalises_witness:
  "\<exists>h' rows.
     print_table [0, 1, 2] three_countries =
       (Inr (), h', [Table [''Name'', ''Capital city'', ''Flag''] rows, Line [CHR 0x0A]])
     \<and> length rows = length [0::nat, 1, 2]
     \<and> rows ! 1 = [JStr ''Antarctica'', JStr ''None'', JStr ''https://flagcdn.com/w320/aq.png'']"
proof -
  have a: "distinct [0::nat, 1, 2]" by simp
  have b: "\<forall>a\<in>set [0::nat, 1, 2]. well_formed (three_countries a)"
    by (simp add: three_countries_def germany_def antarctica_def south_africa_def)
  have c: "(1::nat) < length [0::nat, 1, 2]" by simp
  have d: "three_countries ([0, 1, 2] ! 1) =
             JObj [(''name'', JObj [(''common'', JStr ''Antarctica''),
                                    (''official'', JStr ''Antarctica'')]),
                   (''capital'', JArr []),
                   (''flags'', JObj [(''png'', JStr ''https://flagcdn.com/w320/aq.png''),
                                     (''svg'', JStr ''https://flagcdn.com/aq.svg'')])]"
    by (simp add: three_countries_def antarctica_def)
  have e: "map_of [(''name'', JObj [(''common'', JStr ''Antarctica''),
                                    (''official'', JStr ''Antarctica'')]),
                   (''capital'', JArr []),
                   (''flags'', JObj [(''png'', JStr ''https://flagcdn.com/w320/aq.png''),
                                     (''svg'', JStr ''https://flagcdn.com/aq.svg'')])] ''name'' =
             Some (JObj [(''common'', JStr ''Antarctica''), (''official'', JStr ''Antarctica'')])"
    by simp
  have f: "map_of [(''common'', JStr ''Antarctica''), (''official'', JStr ''Antarctica'')] ''common'' =
             Some (JStr ''Antarctica'')"
    by simp
  have g: "map_of [(''name'', JObj [(''common'', JStr ''Antarctica''),
                                    (''official'', JStr ''Antarctica'')]),
                   (''capital'', JArr []),
                   (''flags'', JObj [(''png'', JStr ''https://flagcdn.com/w320/aq.png''),
                                     (''svg'', JStr ''https://flagcdn.com/aq.svg'')])] ''capital'' =
             Some (JArr [])"
    by simp
  have k: "map_of [(''name'', JObj [(''common'', JStr ''Antarctica''),
                                    (''official'', JStr ''Antarctica'')]),
                   (''capital'', JArr []),
                   (''flags'', JObj [(''png'', JStr ''https://flagcdn.com/w320/aq.png''),
                                     (''svg'', JStr ''https://flagcdn.com/aq.svg'')])] ''flags'' =
             Some (JObj [(''png'', JStr ''https://flagcdn.com/w320/aq.png''),
                         (''svg'', JStr ''https://flagcdn.com/aq.svg'')])"
    by simp
  have l: "map_of [(''png'', JStr ''https://flagcdn.com/w320/aq.png''),
                   (''svg'', JStr ''https://flagcdn.com/aq.svg'')] ''png'' =
             Some (JStr ''https://flagcdn.com/w320/aq.png'')"
    by simp
  from print_table_normalises[OF a b c d e f g k l] show ?thesis
    by (simp only: list.case) blast
qed

text \<open>
  Claim C9, as amended. \<open>_print_table\<close> rewrites the records of its argument in place:
  when it is given a non-empty list of distinct, well-formed record objects it
  returns normally, and afterwards each record of the caller's list holds the common
  name under \<open>name\<close> and the PNG URL under \<open>flags\<close> in place of the nested objects,
  which are gone, and under \<open>capital\<close> the string \<open>"None"\<close> in place of an empty list,
  the sole element in place of a list of one, and the same list as before when it
  has more than one element; objects that are not in the list are left as they were.
\<close>

theorem print_table_rewrites_records:
  assumes "data \<noteq> []" and "distinct data" and "\<forall>a\<in>set data. well_formed (h a)"
  shows "\<exists>h'. fst (print_table data h) = Inr ()
           \<and> fst (snd (print_table data h)) = h'
           \<and> (\<forall>a\<in>set data.
                  py_getitem (h' a) ''name'' = nested (h a) ''name'' ''common''
                \<and> py_getitem (h' a) ''flags'' = nested (h a) ''flags'' ''png''
                \<and> py_getitem (h' a) ''name'' \<noteq> py_getitem (h a) ''name''
                \<and> py_getitem (h' a) ''flags'' \<noteq> py_getitem (h a) ''flags''
                \<and> (\<forall>caps. py_getitem (h a) ''capital'' = Inr (JArr caps) \<longrightarrow>
                       py_getitem (h' a) ''capital'' =
                         Inr (case caps of [] \<Rightarrow> JStr ''None'' | [x] \<Rightarrow> x
                              | x # y # zs \<Rightarrow> JArr caps)))
           \<and> (\<forall>a. a \<notin> set data \<longrightarrow> h' a = h a)"
proof -
  let ?h' = "\<lambda>a. if a \<in> set data then snd (loop_body (h a)) else h a"
  have pt: "fst (print_table data h) = Inr ()" "fst (snd (print_table data h)) = ?h'"
    using print_table_distinct[OF assms] by simp_all
  have rec: "\<forall>a\<in>set data.
                  py_getitem (?h' a) ''name'' = nested (h a) ''name'' ''common''
                \<and> py_getitem (?h' a) ''flags'' = nested (h a) ''flags'' ''png''
                \<and> py_getitem (?h' a) ''name'' \<noteq> py_getitem (h a) ''name''
                \<and> py_getitem (?h' a) ''flags'' \<noteq> py_getitem (h a) ''flags''
                \<and> (\<forall>caps. py_getitem (h a) ''capital'' = Inr (JArr caps) \<longrightarrow>
                       py_getitem (?h' a) ''capital'' =
                         Inr (case caps of [] \<Rightarrow> JStr ''None'' | [x] \<Rightarrow> x
                              | x # y # zs \<Rightarrow> JArr caps))"
  proof
    fix a assume a: "a \<in> set data"
    then have wf: "well_formed (h a)" using assms(3) by blast
    have eq: "?h' a = snd (loop_body (h a))" using a by simp
    show "py_getitem (?h' a) ''name'' = nested (h a) ''name'' ''common''
                \<and> py_getitem (?h' a) ''flags'' = nested (h a) ''flags'' ''png''
                \<and> py_getitem (?h' a) ''name'' \<noteq> py_getitem (h a) ''name''
                \<and> py_getitem (?h' a) ''flags'' \<noteq> py_getitem (h a) ''flags''
                \<and> (\<forall>caps. py_getitem (h a) ''capital'' = Inr (JArr caps) \<longrightarrow>
                       py_getitem (?h' a) ''capital'' =
                         Inr (case caps of [] \<Rightarrow> JStr ''None'' | [x] \<Rightarrow> x
                              | x # y # zs \<Rightarrow> JArr caps))"
      unfolding eq by (rule loop_body_reads[OF wf])
  qed
  have frame: "\<forall>a. a \<notin> set data \<longrightarrow> ?h' a = h a" by simp
  from pt rec frame show ?thesis by blast
qed

theorem print_table_rewrites_records_witness:
  "fst (print_table [0, 1, 2] three_countries) = Inr ()
   \<and> map (fst (snd (print_table [0, 1, 2] three_countries))) [0, 1, 2] =
       [JObj [(''name'', JStr ''Germany''), (''capital'', JStr ''Berlin''),
              (''flags'', JStr ''https://flagcdn.com/w320/de.png'')],
        JObj [(''name'', JStr ''Antarctica''), (''capital'', JStr ''None''),
              (''flags'', JStr ''https://flagcdn.com/w320/aq.png'')],
        JObj [(''name'', JStr ''South Africa''),
              (''capital'', JArr [JStr ''Pretoria'', JStr ''Bloemfontein'', JStr ''Cape Town'']),
              (''flags'', JStr ''https://flagcdn.com/w320/za.png'')]]"
proof -
  have ne: "[0::nat, 1, 2] \<noteq> []" by simp
  have di: "distinct [0::nat, 1, 2]" by simp
  have wf: "\<forall>a\<in>set [0::nat, 1, 2]. well_formed (three_countries a)"
    by (simp add: three_countries_def germany_def antarctica_def south_africa_def)
  from print_table_rewrites_records[OF ne di wf]
  have "fst (print_table [0, 1, 2] three_countries) = Inr ()"
    by blast
  moreover have "map (fst (snd (print_table [0, 1, 2] three_countries))) [0, 1, 2] =
       [JObj [(''name'', JStr ''Germany''), (''capital'', JStr ''Berlin''),
              (''flags'', JStr ''https://flagcdn.com/w320/de.png'')],
        JObj [(''name'', JStr ''Antarctica''), (''capital'', JStr ''None''),
              (''flags'', JStr ''https://flagcdn.com/w320/aq.png'')],
        JObj [(''name'', JStr ''South Africa''),
              (''capital'', JArr [JStr ''Pretoria'', JStr ''Bloemfontein'', JStr ''Cape Town'']),
              (''flags'', JStr ''https://flagcdn.com/w320/za.png'')]]"
    by (simp add: print_table_def loop_body_def set_name_def set_capital_def set_flags_def
          three_countries_def germany_def antarctica_def south_africa_def)
  ultimately show ?thesis by blast
qed

text \<open>
  Claim C9 as stated fails: the capital of a record with three capitals is the same
  list after the call as before, not a scalar.
\<close>

theorem print_table_keeps_long_capital_counterexample:
  "py_getitem (three_countries 2) ''capital'' =
     Inr (JArr [JStr ''Pretoria'', JStr ''Bloemfontein'', JStr ''Cape Town''])
   \<and> fst (print_table [2] three_countries) = Inr ()
   \<and> fst (snd (print_table [2] three_countries)) 2 =
       JObj [(''name'', JStr ''South Africa''),
             (''capital'', JArr [JStr ''Pretoria'', JStr ''Bloemfontein'', JStr ''Cape Town'']),
             (''flags'', JStr ''https://flagcdn.com/w320/za.png'')]
   \<and> snd (snd (print_table [2] three_countries)) =
       [Table [''Name'', ''Capital city'', ''Flag'']
          [[JStr ''South Africa'',
            JArr [JStr ''Pretoria'', JStr ''Bloemfontein'', JStr ''Cape Town''],
            JStr ''https://flagcdn.com/w320/za.png'']],
        Line [CHR 0x0A]]"
  by (simp add: print_table_def loop_body_def set_name_def set_capital_def set_flags_def
        table_row_def three_countries_def south_africa_def)

text \<open>The addresses have to be distinct: on a list that holds the same record object
  twice, the second pass finds the name already replaced by a str and raises.\<close>

lemma print_table_same_object_twice:
  "well_formed (three_countries 0)
   \<and> fst (print_table [0, 0] three_countries) = Inl TypeError
   \<and> fst (snd (print_table [0, 0] three_countries)) 0 =
       JObj [(''name'', JStr ''Germany''), (''capital'', JStr ''Berlin''),
             (''flags'', JStr ''https://flagcdn.com/w320/de.png'')]
   \<and> snd (snd (print_table [0, 0] three_countries)) = []"
  by (simp add: print_table_def loop_body_def set_name_def set_capital_def set_flags_def
        three_countries_def germany_def)

subsection \<open>The status an entry point returns\<close>

lemmas entry_defs =
  get_all_def get_by_name_def get_by_fullname_def get_by_code_def get_by_listcodes_def
  get_by_currency_def get_by_demonym_def get_by_lang_def get_by_capital_def get_by_region_def
  get_by_subregion_def get_by_translation_def

lemma invoke_not_ok:
  assumes "\<forall>url ps. srv url ps = Inr resp" and "status_code resp \<noteq> 200"
  shows "fst (invoke srv self c w) = Inr False"
  using assms by (cases c) (simp_all add: entry_defs get_request_def Let_def show_result_def)

lemma invoke_undecodable:
  assumes "\<forall>url ps. srv url ps = Inr resp" and "status_code resp = 200"
    and "body_json resp = Inl ex"
  shows "fst (invoke srv self c w) = Inr False"
  using assms by (cases c) (simp_all add: entry_defs get_request_def Let_def show_result_def)

lemma invoke_falsy:
  assumes "\<forall>url ps. srv url ps = Inr resp" and "status_code resp = 200"
    and "body_json resp = Inr res" and "\<not> truthy res"
  shows "fst (invoke srv self c w) = Inr False"
  using assms by (cases c) (simp_all add: entry_defs get_request_def Let_def show_result_def)

lemma invoke_rows:
  assumes "\<forall>url ps. srv url ps = Inr resp" and "status_code resp = 200"
    and "body_json resp = Inr (JArr cs)" and "cs \<noteq> []" and "list_all well_formed cs"
  shows "fst (invoke srv self c w) = Inr True
       \<and> console (snd (invoke srv self c w)) =
           console w @ [Table [''Name'', ''Capital city'', ''Flag'']
                          (map (\<lambda>r. table_row (snd (loop_body r))) cs),
                        Line [CHR 0x0A]]"
  using assms
  by (cases c)
     (simp_all add: entry_defs get_request_def Let_def show_result_def print_decoded_well_formed
        self_fields_setitem_def)

lemma invoke_true_only:
  assumes "\<forall>url ps. srv url ps = Inr resp" and "fst (invoke srv self c w) = Inr True"
  shows "status_code resp = 200 \<and> (\<exists>res. body_json resp = Inr res \<and> truthy res)"
proof -
  have "status_code resp = 200"
    using assms invoke_not_ok[of srv resp self c w] by auto
  moreover have "\<exists>res. body_json resp = Inr res"
    using assms invoke_undecodable[of srv resp _ self c w] calculation
    by (cases "body_json resp") auto
  moreover have "\<And>res. body_json resp = Inr res \<Longrightarrow> truthy res"
    using assms invoke_falsy[of srv resp _ self c w] calculation by auto
  ultimately show ?thesis by blast
qed

lemma get_request_answer:
  assumes "\<forall>url ps. srv url ps = Inr resp" and "status_code resp = 200"
    and "body_json resp = Inr res"
  shows "get_request srv self url ps w =
           (Inr res, w\<lparr>sent := sent w @ [(url, case ps of None \<Rightarrow> self_fields self w | Some q \<Rightarrow> q)]\<rparr>)"
  using assms by (simp add: get_request_def Let_def)

lemma well_formed_truthy: "well_formed r \<Longrightarrow> truthy r"
proof -
  assume "well_formed r"
  from well_formedD[OF this] obtain d n where r: "r = JObj d"
    and n: "map_of d ''name'' = Some (JObj n)"
    by blast
  from n have "d \<noteq> []" by (cases d) simp_all
  with r show ?thesis by simp
qed

lemma get_by_code_single:
  assumes "\<forall>url ps. srv url ps = Inr resp" and "status_code resp = 200"
    and "body_json resp = Inr r" and "well_formed r"
  shows "fst (get_by_code srv self code w) = Inr True
       \<and> console (snd (get_by_code srv self code w)) =
           console w @ [Table [''Name'', ''Capital city'', ''Flag'']
                          [table_row (snd (loop_body r))],
                        Line [CHR 0x0A]]"
proof -
  have t: "truthy r" using assms(4) by (rule well_formed_truthy)
  have "print_decoded (JArr [r]) =
          (Inr (), JArr [snd (loop_body r)],
           [Table [''Name'', ''Capital city'', ''Flag''] [table_row (snd (loop_body r))],
            Line [CHR 0x0A]])"
    using print_decoded_well_formed[of "[r]"] assms(4) by simp
  moreover have "(case r of JArr cs \<Rightarrow> print_decoded r | _ \<Rightarrow> print_decoded (JArr [r])) =
                   print_decoded (JArr [r])"
    using assms(4) by (cases r) simp_all
  ultimately have p: "(case r of JArr cs \<Rightarrow> print_decoded r | _ \<Rightarrow> print_decoded (JArr [r])) =
          (Inr (), JArr [snd (loop_body r)],
           [Table [''Name'', ''Capital city'', ''Flag''] [table_row (snd (loop_body r))],
            Line [CHR 0x0A]])"
    by simp
  show ?thesis
    unfolding get_by_code_def Let_def get_request_answer[OF assms(1-3)]
    by (simp add: t p)
qed

text \<open>
  Claim C3, as amended. Let the remote end answer every request with the same
  response. If every body that decodes is a list of well-formed country records, an
  entry point returns \<open>True\<close> exactly when the status is 200 and the body decodes to
  a non-empty list. In any case: a 200 response with a non-empty list of well-formed
  records yields \<open>True\<close> and prints one table with one row per element; a 200
  response with an empty list, a status other than 200, and a body that does not
  decode each yield \<open>False\<close>; \<open>True\<close> is returned only for status 200 and a decoded
  result that Python counts as true; and \<open>get_by_code\<close> also yields \<open>True\<close>, with a
  table of one row, for a single well-formed record that is not in a list.
\<close>

theorem status_mapping:
  assumes "\<forall>url ps. srv url ps = Inr resp"
  shows "((\<forall>res. body_json resp = Inr res \<longrightarrow> (\<exists>cs. res = JArr cs \<and> list_all well_formed cs)) \<longrightarrow>
            (fst (invoke srv self c w) = Inr True \<longleftrightarrow>
               status_code resp = 200 \<and> (\<exists>cs. body_json resp = Inr (JArr cs) \<and> cs \<noteq> [])))
       \<and> (\<forall>cs. status_code resp = 200 \<and> body_json resp = Inr (JArr cs) \<and> cs \<noteq> []
                 \<and> list_all well_formed cs \<longrightarrow>
              fst (invoke srv self c w) = Inr True
              \<and> (\<exists>rows. console (snd (invoke srv self c w)) =
                            console w @ [Table [''Name'', ''Capital city'', ''Flag''] rows,
                                         Line [CHR 0x0A]]
                         \<and> length rows = length cs))
       \<and> (status_code resp = 200 \<and> body_json resp = Inr (JArr []) \<longrightarrow>
              fst (invoke srv self c w) = Inr False)
       \<and> (status_code resp \<noteq> 200 \<longrightarrow> fst (invoke srv self c w) = Inr False)
       \<and> (status_code resp = 200 \<and> (\<exists>ex. body_json resp = Inl ex) \<longrightarrow>
              fst (invoke srv self c w) = Inr False)
       \<and> (fst (invoke srv self c w) = Inr True \<longrightarrow>
              status_code resp = 200 \<and> (\<exists>res. body_json resp = Inr res \<and> truthy res))
       \<and> (\<forall>code r. c = GetByCode code \<and> status_code resp = 200 \<and> body_json resp = Inr r
                   \<and> well_formed r \<longrightarrow>
              fst (invoke srv self c w) = Inr True
              \<and> (\<exists>row. console (snd (invoke srv self c w)) =
                           console w @ [Table [''Name'', ''Capital city'', ''Flag''] [row],
                                        Line [CHR 0x0A]]))"
proof -
  have rows: "\<forall>cs. status_code resp = 200 \<and> body_json resp = Inr (JArr cs) \<and> cs \<noteq> []
                 \<and> list_all well_formed cs \<longrightarrow>
              fst (invoke srv self c w) = Inr True
              \<and> (\<exists>rows. console (snd (invoke srv self c w)) =
                            console w @ [Table [''Name'', ''Capital city'', ''Flag''] rows,
                                         Line [CHR 0x0A]]
                         \<and> length rows = length cs)"
  proof (intro allI impI)
    fix cs
    assume h: "status_code resp = 200 \<and> body_json resp = Inr (JArr cs) \<and> cs \<noteq> []
                 \<and> list_all well_formed cs"
    then have "fst (invoke srv self c w) = Inr True
       \<and> console (snd (invoke srv self c w)) =
           console w @ [Table [''Name'', ''Capital city'', ''Flag'']
                          (map (\<lambda>r. table_row (snd (loop_body r))) cs),
                        Line [CHR 0x0A]]"
      using invoke_rows[OF assms, of cs self c w] by simp
    moreover have "length (map (\<lambda>r. table_row (snd (loop_body r))) cs) = length cs"
      by simp
    ultimately show "fst (invoke srv self c w) = Inr True
              \<and> (\<exists>rows. console (snd (invoke srv self c w)) =
                            console w @ [Table [''Name'', ''Capital city'', ''Flag''] rows,
                                         Line [CHR 0x0A]]
                         \<and> length rows = length cs)"
      by blast
  qed
  have empty: "status_code resp = 200 \<and> body_json resp = Inr (JArr []) \<longrightarrow>
              fst (invoke srv self c w) = Inr False"
    using invoke_falsy[OF assms, of "JArr []" self c w] by simp
  have bad: "status_code resp \<noteq> 200 \<longrightarrow> fst (invoke srv self c w) = Inr False"
    using invoke_not_ok[OF assms] by simp
  have undec: "status_code resp = 200 \<and> (\<exists>ex. body_json resp = Inl ex) \<longrightarrow>
              fst (invoke srv self c w) = Inr False"
    using invoke_undecodable[OF assms] by blast
  have only: "fst (invoke srv self c w) = Inr True \<longrightarrow>
              status_code resp = 200 \<and> (\<exists>res. body_json resp = Inr res \<and> truthy res)"
    using invoke_true_only[OF assms] by blast
  have iff: "(\<forall>res. body_json resp = Inr res \<longrightarrow> (\<exists>cs. res = JArr cs \<and> list_all well_formed cs)) \<longrightarrow>
            (fst (invoke srv self c w) = Inr True \<longleftrightarrow>
               status_code resp = 200 \<and> (\<exists>cs. body_json resp = Inr (JArr cs) \<and> cs \<noteq> []))"
  proof (intro impI iffI)
    assume typed: "\<forall>res. body_json resp = Inr res \<longrightarrow> (\<exists>cs. res = JArr cs \<and> list_all well_formed cs)"
      and "fst (invoke srv self c w) = Inr True"
    with only obtain res where "status_code resp = 200" "body_json resp = Inr res" "truthy res"
      by blast
    moreover from typed calculation obtain cs where "res = JArr cs" by blast
    ultimately show "status_code resp = 200 \<and> (\<exists>cs. body_json resp = Inr (JArr cs) \<and> cs \<noteq> [])"
      by auto
  next
    assume typed: "\<forall>res. body_json resp = Inr res \<longrightarrow> (\<exists>cs. res = JArr cs \<and> list_all well_formed cs)"
      and "status_code resp = 200 \<and> (\<exists>cs. body_json resp = Inr (JArr cs) \<and> cs \<noteq> [])"
    then obtain cs where "status_code resp = 200" "body_json resp = Inr (JArr cs)" "cs \<noteq> []"
      "list_all well_formed cs" by auto
    with rows show "fst (invoke srv self c w) = Inr True" by blast
  qed
  have single: "\<forall>code r. c = GetByCode code \<and> status_code resp = 200 \<and> body_json resp = Inr r
                   \<and> well_formed r \<longrightarrow>
              fst (invoke srv self c w) = Inr True
              \<and> (\<exists>row. console (snd (invoke srv self c w)) =
                           console w @ [Table [''Name'', ''Capital city'', ''Flag''] [row],
                                        Line [CHR 0x0A]])"
  proof (intro allI impI)
    fix code r
    assume h: "c = GetByCode code \<and> status_code resp = 200 \<and> body_json resp = Inr r
                   \<and> well_formed r"
    then have "fst (get_by_code srv self code w) = Inr True
       \<and> console (snd (get_by_code srv self code w)) =
           console w @ [Table [''Name'', ''Capital city'', ''Flag'']
                          [table_row (snd (loop_body r))],
                        Line [CHR 0x0A]]"
      using get_by_code_single[OF assms, of r self code w] by blast
    with h show "fst (invoke srv self c w) = Inr True
              \<and> (\<exists>row. console (snd (invoke srv self c w)) =
                           console w @ [Table [''Name'', ''Capital city'', ''Flag''] [row],
                                        Line [CHR 0x0A]])"
      by auto
  qed
  show ?thesis
    by (rule conjI[OF iff conjI[OF rows conjI[OF empty conjI[OF bad conjI[OF undec
          conjI[OF only single]]]]]])
qed

theorem status_mapping_witness:
  "fst (invoke (answering (JArr [germany, antarctica])) 0 (GetByName ''land'') initial_world) = Inr True
   \<and> (\<exists>rows. console (snd (invoke (answering (JArr [germany, antarctica])) 0 (GetByName ''land'')
                              initial_world)) =
               [Table [''Name'', ''Capital city'', ''Flag''] rows, Line [CHR 0x0A]]
             \<and> length rows = 2)
   \<and> fst (invoke (answering (JArr [])) 0 (GetByName ''land'') initial_world) = Inr False
   \<and> fst (invoke not_found 0 (GetByName ''land'') initial_world) = Inr False"
proof -
  let ?ok = "\<lparr>status_code = 200, body_text = [], body_json = Inr (JArr [germany, antarctica])\<rparr>"
  let ?none = "\<lparr>status_code = 200, body_text = [], body_json = Inr (JArr [])\<rparr>"
  let ?nf = "\<lparr>status_code = 404, body_text = ''Not Found'', body_json = Inl ''no JSON''\<rparr>"
  have a: "\<forall>url ps. answering (JArr [germany, antarctica]) url ps = Inr ?ok"
    by (simp add: answering_def)
  have b: "\<forall>url ps. answering (JArr []) url ps = Inr ?none"
    by (simp add: answering_def)
  have c: "\<forall>url ps. not_found url ps = Inr ?nf"
    by (simp add: not_found_def)
  have wf: "list_all well_formed [germany, antarctica]"
    by (simp add: germany_def antarctica_def)
  from status_mapping[OF a, of 0 "GetByName ''land''" initial_world] wf
  have "fst (invoke (answering (JArr [germany, antarctica])) 0 (GetByName ''land'') initial_world) = Inr True
   \<and> (\<exists>rows. console (snd (invoke (answering (JArr [germany, antarctica])) 0 (GetByName ''land'')
                              initial_world)) =
               [Table [''Name'', ''Capital city'', ''Flag''] rows, Line [CHR 0x0A]]
             \<and> length rows = 2)"
    by (simp add: initial_world_def numeral_2_eq_2)
  moreover from status_mapping[OF b, of 0 "GetByName ''land''" initial_world]
  have "fst (invoke (answering (JArr [])) 0 (GetByName ''land'') initial_world) = Inr False"
    by simp
  moreover from status_mapping[OF c, of 0 "GetByName ''land''" initial_world]
  have "fst (invoke not_found 0 (GetByName ''land'') initial_world) = Inr False"
    by simp
  ultimately show ?thesis by blast
qed

text \<open>
  Claim C3 as stated fails: status 200 with a non-empty decoded result does not make
  every entry point return \<open>True\<close>. A single country object, which \<open>get_by_code\<close>
  prints, makes \<open>get_by_name\<close> raise \<open>TypeError\<close> inside \<open>_print_table\<close> (the loop
  iterates over the keys of the dict).
\<close>

theorem get_by_name_single_object_counterexample:
  "truthy germany
   \<and> fst (get_by_name (answering germany) 0 ''germany'' initial_world) = Inl TypeError
   \<and> fst (get_by_code (answering germany) 0 (Inr ''de'') initial_world) = Inr True"
  by (simp add: get_by_name_def get_by_code_def get_request_def show_result_def
        print_decoded_def print_table_def
        answering_def initial_world_def germany_def Let_def self_fields_def
        loop_body_def set_name_def set_capital_def set_flags_def)

subsection \<open>The shared default parameters\<close>

lemma get_request_fields: "class_fields (snd (get_request srv self url ps w)) = class_fields w"
  by (simp add: get_request_def Let_def py_print_def split: sum.splits)

lemma get_request_sent:
  "sent (snd (get_request srv self url ps w)) =
     sent w @ [(url, case ps of None \<Rightarrow> class_fields w | Some q \<Rightarrow> q)]"
  by (simp add: get_request_def Let_def py_print_def self_fields_def split: sum.splits option.splits)

lemma show_result_frame:
  "class_fields (snd (show_result res w)) = class_fields w
   \<and> sent (snd (show_result res w)) = sent w"
  by (simp add: show_result_def split: prod.splits sum.splits)

lemma default_query_frame:
  "class_fields (snd (default_query srv self url w)) = class_fields w
   \<and> sent (snd (default_query srv self url w)) = sent w @ [(url, class_fields w)]"
proof (cases "get_request srv self url None w")
  case (Pair r w1)
  then have "class_fields w1 = class_fields w" and "sent w1 = sent w @ [(url, class_fields w)]"
    using get_request_fields[of srv self url None w] get_request_sent[of srv self url None w]
    by simp_all
  with Pair show ?thesis
    by (cases r) (simp_all add: default_query_def show_result_frame)
qed

lemmas default_entry_defs =
  get_all_def get_by_name_def get_by_currency_def get_by_demonym_def get_by_lang_def
  get_by_capital_def get_by_region_def get_by_subregion_def get_by_translation_def

lemma get_by_code_frame:
  "class_fields (snd (get_by_code srv self code w)) = class_fields w
   \<and> sent (snd (get_by_code srv self code w)) =
       sent w @ [(str_join ''/'' [main_url, ''alpha'', case code of Inl n \<Rightarrow> str_int n | Inr c \<Rightarrow> c],
                  class_fields w)]"
proof -
  let ?url = "str_join ''/'' [main_url, ''alpha'', case code of Inl n \<Rightarrow> str_int n | Inr c \<Rightarrow> c]"
  obtain r w1 where g: "get_request srv self ?url None w = (r, w1)"
    by (cases "get_request srv self ?url None w")
  then have "class_fields w1 = class_fields w" and "sent w1 = sent w @ [(?url, class_fields w)]"
    using get_request_fields[of srv self ?url None w] get_request_sent[of srv self ?url None w]
    by simp_all
  with g show ?thesis
    by (cases r) (simp_all add: get_by_code_def Let_def split: prod.splits sum.splits)
qed

lemma default_call_frame:
  assumes "default_call c"
  shows "class_fields (snd (invoke srv self c w)) = class_fields w
       \<and> (\<exists>url. sent (snd (invoke srv self c w)) = sent w @ [(url, class_fields w)])"
proof (cases c)
  case (GetByCode code)
  then show ?thesis using get_by_code_frame[of srv self code w] by auto
next
  case (GetByFullname x)
  with assms show ?thesis by simp
next
  case (GetByListcodes x)
  with assms show ?thesis by simp
qed (use default_query_frame in \<open>simp_all add: default_entry_defs default_query_def[symmetric]\<close>)

lemma get_by_fullname_frame:
  "class_fields (snd (get_by_fullname srv self x w)) =
     AList.update ''fullText'' (QStr ''true'') (class_fields w)
   \<and> sent (snd (get_by_fullname srv self x w)) =
       sent w @ [(str_join ''/'' [main_url, ''name'', x],
                  AList.update ''fullText'' (QStr ''true'') (class_fields w))]"
proof -
  let ?url = "str_join ''/'' [main_url, ''name'', x]"
  let ?w0 = "self_fields_setitem self ''fullText'' (QStr ''true'') w"
  obtain r w1 where g: "get_request srv self ?url (Some (self_fields self ?w0)) ?w0 = (r, w1)"
    by (cases "get_request srv self ?url (Some (self_fields self ?w0)) ?w0")
  then have "class_fields w1 = class_fields ?w0"
    and "sent w1 = sent ?w0 @ [(?url, self_fields self ?w0)]"
    using get_request_fields[of srv self ?url "Some (self_fields self ?w0)" ?w0]
      get_request_sent[of srv self ?url "Some (self_fields self ?w0)" ?w0]
    by simp_all
  with g show ?thesis
    by (cases r)
       (simp_all add: get_by_fullname_def Let_def show_result_frame self_fields_def
          self_fields_setitem_def)
qed

lemma get_by_listcodes_frame:
  "class_fields (snd (get_by_listcodes srv self code w)) =
     AList.update ''codes'' (QList code) (class_fields w)
   \<and> sent (snd (get_by_listcodes srv self code w)) =
       sent w @ [(str_join ''/'' [main_url, ''alpha''],
                  AList.update ''codes'' (QList code) (class_fields w))]"
proof -
  let ?url = "str_join ''/'' [main_url, ''alpha'']"
  let ?w0 = "self_fields_setitem self ''codes'' (QList code) w"
  obtain r w1 where g: "get_request srv self ?url (Some (self_fields self ?w0)) ?w0 = (r, w1)"
    by (cases "get_request srv self ?url (Some (self_fields self ?w0)) ?w0")
  then have "class_fields w1 = class_fields ?w0"
    and "sent w1 = sent ?w0 @ [(?url, self_fields self ?w0)]"
    using get_request_fields[of srv self ?url "Some (self_fields self ?w0)" ?w0]
      get_request_sent[of srv self ?url "Some (self_fields self ?w0)" ?w0]
    by simp_all
  with g show ?thesis
    by (cases r)
       (simp_all add: get_by_listcodes_def Let_def show_result_frame self_fields_def
          self_fields_setitem_def)
qed

text \<open>No call removes a key of the shared dict, and once \<open>fullText\<close> is \<open>"true"\<close> it
  stays so.\<close>

lemma invoke_keeps_keys:
  "fst ` set (class_fields w) \<subseteq> fst ` set (class_fields (snd (invoke srv self c w)))"
proof (cases "default_call c")
  case True
  then show ?thesis using default_call_frame[of c srv self w] by simp
next
  case False
  then show ?thesis
    using get_by_fullname_frame[of srv self _ w] get_by_listcodes_frame[of srv self _ w]
    by (cases c) (auto simp: dom_update)
qed

lemma invoke_keeps_fulltext:
  assumes "map_of (class_fields w) ''fullText'' = Some (QStr ''true'')"
  shows "map_of (class_fields (snd (invoke srv self c w))) ''fullText'' = Some (QStr ''true'')"
proof (cases "default_call c")
  case True
  then show ?thesis using default_call_frame[of c srv self w] assms by simp
next
  case False
  then show ?thesis
    using get_by_fullname_frame[of srv self _ w] get_by_listcodes_frame[of srv self _ w] assms
    by (cases c) (auto simp: update_conv')
qed

lemma run_calls_keeps_keys:
  "fst ` set (class_fields w) \<subseteq> fst ` set (class_fields (run_calls srv cs w))"
proof (induction cs arbitrary: w)
  case Nil
  show ?case by simp
next
  case (Cons sc cs)
  obtain self c where sc: "sc = (self, c)" by (cases sc)
  have "fst ` set (class_fields w) \<subseteq> fst ` set (class_fields (snd (invoke srv self c w)))"
    by (rule invoke_keeps_keys)
  also have "\<dots> \<subseteq> fst ` set (class_fields (run_calls srv cs (snd (invoke srv self c w))))"
    by (rule Cons.IH)
  finally show ?case by (simp add: sc)
qed

lemma run_calls_keeps_fulltext:
  "map_of (class_fields w) ''fullText'' = Some (QStr ''true'') \<Longrightarrow>
   map_of (class_fields (run_calls srv cs w)) ''fullText'' = Some (QStr ''true'')"
proof (induction cs arbitrary: w)
  case Nil
  then show ?case by simp
next
  case (Cons sc cs)
  obtain self c where sc: "sc = (self, c)" by (cases sc)
  from Cons.prems have "map_of (class_fields (snd (invoke srv self c w))) ''fullText'' = Some (QStr ''true'')"
    by (rule invoke_keeps_fulltext)
  then show ?case using Cons.IH by (simp add: sc)
qed

text \<open>
  Claim C10. The default parameters are one dict of the class, changed in place.
  After \<open>get_by_fullname\<close> on an instance \<open>a\<close>, and after any further calls on any
  instances, a call with default parameters on any instance \<open>b\<close> issues a request
  whose parameters hold \<open>fullText = "true"\<close>; likewise the key \<open>codes\<close> after
  \<open>get_by_listcodes\<close>; and no sequence of calls removes a key from the dict.
\<close>

theorem fields_key_reaches_every_instance:
  assumes "default_call c"
  shows "(\<exists>url ps. sent (snd (invoke srv b c (run_calls srv cs (snd (get_by_fullname srv a x w))))) =
                     sent (run_calls srv cs (snd (get_by_fullname srv a x w))) @ [(url, ps)]
                 \<and> map_of ps ''fullText'' = Some (QStr ''true''))
       \<and> (\<exists>url ps. sent (snd (invoke srv b c (run_calls srv cs (snd (get_by_listcodes srv a code w))))) =
                     sent (run_calls srv cs (snd (get_by_listcodes srv a code w))) @ [(url, ps)]
                 \<and> ''codes'' \<in> fst ` set ps)
       \<and> fst ` set (class_fields w) \<subseteq> fst ` set (class_fields (run_calls srv cs w))"
proof -
  let ?wf = "run_calls srv cs (snd (get_by_fullname srv a x w))"
  let ?wc = "run_calls srv cs (snd (get_by_listcodes srv a code w))"
  have "map_of (class_fields (snd (get_by_fullname srv a x w))) ''fullText'' = Some (QStr ''true'')"
    using get_by_fullname_frame[of srv a x w] by (simp add: update_conv')
  then have f: "map_of (class_fields ?wf) ''fullText'' = Some (QStr ''true'')"
    by (rule run_calls_keeps_fulltext)
  have "''codes'' \<in> fst ` set (class_fields (snd (get_by_listcodes srv a code w)))"
    using get_by_listcodes_frame[of srv a code w] by (simp add: dom_update)
  then have k: "''codes'' \<in> fst ` set (class_fields ?wc)"
    using run_calls_keeps_keys[of "snd (get_by_listcodes srv a code w)" srv cs] by blast
  from default_call_frame[OF assms, of srv b ?wf] obtain url1
    where "sent (snd (invoke srv b c ?wf)) = sent ?wf @ [(url1, class_fields ?wf)]"
    by blast
  with f have one: "\<exists>url ps. sent (snd (invoke srv b c ?wf)) = sent ?wf @ [(url, ps)]
                 \<and> map_of ps ''fullText'' = Some (QStr ''true'')"
    by blast
  from default_call_frame[OF assms, of srv b ?wc] obtain url2
    where "sent (snd (invoke srv b c ?wc)) = sent ?wc @ [(url2, class_fields ?wc)]"
    by blast
  with k have two: "\<exists>url ps. sent (snd (invoke srv b c ?wc)) = sent ?wc @ [(url, ps)]
                 \<and> ''codes'' \<in> fst ` set ps"
    by blast
  have three: "fst ` set (class_fields w) \<subseteq> fst ` set (class_fields (run_calls srv cs w))"
    by (rule run_calls_keeps_keys)
  show ?thesis by (rule conjI[OF one conjI[OF two three]])
qed

theorem fields_key_reaches_every_instance_witness:
  "default_call (GetByCapital ''tallinn'')
   \<and> (\<exists>url ps.
         sent (snd (invoke not_found 1 (GetByCapital ''tallinn'')
                      (run_calls not_found [(2, GetByCode (Inr ''col''))]
                         (snd (get_by_fullname not_found 0 ''Germany'' initial_world))))) =
           sent (run_calls not_found [(2, GetByCode (Inr ''col''))]
                   (snd (get_by_fullname not_found 0 ''Germany'' initial_world))) @ [(url, ps)]
         \<and> map_of ps ''fullText'' = Some (QStr ''true''))"
proof -
  have d: "default_call (GetByCapital ''tallinn'')" by simp
  show ?thesis
    by (rule conjI[OF d conjunct1[OF fields_key_reaches_every_instance[OF d,
          where srv = not_found and b = 1 and cs = "[(2, GetByCode (Inr ''col''))]"
            and a = 0 and x = "''Germany''" and w = initial_world]]])
qed

lemma get_by_name_frame:
  "sent (snd (get_by_name srv self name w)) =
     sent w @ [(str_join ''/'' [main_url, ''name'', name], class_fields w)]"
  using default_query_frame[of srv self "str_join ''/'' [main_url, ''name'', name]" w]
  by (simp add: get_by_name_def default_query_def)

text \<open>
  Claim C1 asks that \<open>get_by_name\<close> after \<open>get_by_fullname\<close> sends no \<open>fullText\<close>. The
  code sends it: whatever the remote end answers and whichever instances are used,
  \<open>get_by_fullname("Germany")\<close> followed by \<open>get_by_name("Peru")\<close>, from the state
  of a freshly loaded module, issues these two requests.
\<close>

theorem fulltext_leaks_into_get_by_name:
  "sent (snd (get_by_name srv b ''Peru'' (snd (get_by_fullname srv a ''Germany'' initial_world)))) =
     [(''https://restcountries.com/v3.1/name/Germany'',
       [(''fields'', QList [QStr ''name'', QStr ''capital'', QStr ''flags'']),
        (''fullText'', QStr ''true'')]),
      (''https://restcountries.com/v3.1/name/Peru'',
       [(''fields'', QList [QStr ''name'', QStr ''capital'', QStr ''flags'']),
        (''fullText'', QStr ''true'')])]"
  using get_by_fullname_frame[of srv a "''Germany''" initial_world]
  by (simp add: get_by_name_frame initial_world_def main_url_def)

section \<open>Properties of the page extractor\<close>

subsection \<open>\<open>scrapper\<close>\<close>

lemma scrapper_try_session:
  "snd (scrapper_try p url s) = s
   \<or> snd (scrapper_try p url s) = say (Text ''TimeoutException for page'') s"
  by (simp add: scrapper_try_def Let_def split: sum.splits)

lemma say_quit_calls: "quit_calls (say l s) = quit_calls s"
  by (simp add: say_def)

lemma scrapper_try_quit_calls: "quit_calls (snd (scrapper_try p url s)) = quit_calls s"
  using scrapper_try_session[of p url s] by (auto simp: say_quit_calls)

text \<open>Once the page has loaded, every way out of \<open>scrapper\<close> quits the browser once.\<close>

lemma scrapper_quits_once:
  assumes "browser_get net url s = Inr p"
  shows "quit_calls (snd (scrapper net url s)) = Suc (quit_calls s)"
proof (cases "scrapper_try p url s")
  case (Pair r s1)
  then have "quit_calls s1 = quit_calls s"
    using scrapper_try_quit_calls[of p url s] by simp
  with Pair assms show ?thesis
    by (cases r) (simp_all add: scrapper_def browser_quit_def say_quit_calls split: error.splits)
qed

text \<open>A title that is late or never there gives the same result as a missing element.\<close>

lemma scrapper_timeout:
  assumes "browser_get net url s = Inr p"
    and "(\<exists>m. title p = Absent m) \<or> (\<exists>t name. title p = Found (t, name) \<and> 10 < t)"
  shows "fst (scrapper net url s) = Inr PNone"
  using assms
  by (auto simp: scrapper_def scrapper_try_def wait_until_present_def)

text \<open>What line 101 prints: the exception raised by the driver, with its message, or,
  after a timeout, the one line 83 raises without a message.\<close>

lemma scrapper_diagnostics:
  "printed_lines (snd (scrapper (\<lambda>url. Some (product_page\<lparr>seller := Absent ''no such element''\<rparr>))
                         TEST_URL (new_session Map.empty))) =
     [Report ''NoSuchElementException: '' (NoSuchElementException (Some ''no such element''))]
   \<and> printed_lines (snd (scrapper (\<lambda>url. Some (product_page\<lparr>title := Found (11, ''Film camera'')\<rparr>))
                           TEST_URL (new_session Map.empty))) =
       [Text ''TimeoutException for page'',
        Report ''NoSuchElementException: '' (NoSuchElementException None)]"
  by (simp add: scrapper_def scrapper_try_def browser_get_def browser_quit_def say_def
        wait_until_present_def find_element_def product_page_def new_session_def)

lemma scrapper_absent_element:
  assumes "browser_get net url s = Inr p"
    and "title p = Found (t, name)" and "t \<le> 10"
    and "carousel p = Absent m \<or> price p = Absent m \<or> seller p = Absent m
         \<or> shipping p = Absent m"
    and "carousel p \<noteq> Broken" and "price p \<noteq> Broken"
    and "seller p \<noteq> Broken" and "shipping p \<noteq> Broken"
  shows "fst (scrapper net url s) = Inr PNone"
proof -
  have "\<exists>m'. fst (scrapper_try p url s) = Inl (NoSuchElementException m')"
    using assms(2-8)
    by (cases "carousel p"; cases "price p"; cases "seller p"; cases "shipping p")
       (simp_all add: scrapper_try_def wait_until_present_def find_element_def)
  then obtain m' s1 where "scrapper_try p url s = (Inl (NoSuchElementException m'), s1)"
    by (cases "scrapper_try p url s") auto
  with assms(1) show ?thesis by (simp add: scrapper_def)
qed

lemma scrapper_record_needs_all:
  assumes "fst (scrapper net url s) = Inr (PDict d)"
  shows "\<exists>p t name imgs pr se sh. browser_get net url s = Inr p \<and> title p = Found (t, name)
           \<and> carousel p = Found imgs \<and> price p = Found pr \<and> seller p = Found se
           \<and> shipping p = Found sh"
proof (cases "browser_get net url s")
  case (Inl e)
  with assms show ?thesis by (simp add: scrapper_def)
next
  case (Inr p)
  obtain r s1 where t: "scrapper_try p url s = (r, s1)" by (cases "scrapper_try p url s")
  with Inr assms have r: "r = Inr (PDict d)"
    by (cases r) (simp_all add: scrapper_def split: error.splits)
  have "\<exists>t name imgs pr se sh. title p = Found (t, name)
           \<and> carousel p = Found imgs \<and> price p = Found pr \<and> seller p = Found se
           \<and> shipping p = Found sh"
    using t r
    by (cases "title p"; cases "carousel p"; cases "price p"; cases "seller p"; cases "shipping p")
       (auto simp: scrapper_try_def wait_until_present_def find_element_def split: if_splits)
  with Inr show ?thesis by blast
qed

lemma browser_get_fresh:
  "quit_calls s = 0 \<Longrightarrow> net url = Some p \<Longrightarrow> browser_get net url s = Inr p"
  by (simp add: browser_get_def)

text \<open>
  Claim C5. On a fresh browser and a page that loads, with the title element present
  within the wait, if the image container, the price, the seller or the shipping cost
  is absent, \<open>scrapper\<close> never returns a record; and when none of the four reads
  fails in another way than by absence, it returns \<open>None\<close>.
\<close>

theorem no_partial_record:
  assumes "quit_calls s = 0" and "net url = Some p"
    and "title p = Found (t, name)" and "t \<le> 10"
    and "carousel p = Absent m \<or> price p = Absent m \<or> seller p = Absent m
         \<or> shipping p = Absent m"
  shows "(\<forall>d. fst (scrapper net url s) \<noteq> Inr (PDict d))
       \<and> (carousel p \<noteq> Broken \<and> price p \<noteq> Broken \<and> seller p \<noteq> Broken \<and> shipping p \<noteq> Broken
            \<longrightarrow> fst (scrapper net url s) = Inr PNone)"
proof -
  have g: "browser_get net url s = Inr p"
    using assms(1,2) by (rule browser_get_fresh)
  have "\<forall>d. fst (scrapper net url s) \<noteq> Inr (PDict d)"
  proof (intro allI notI)
    fix d assume "fst (scrapper net url s) = Inr (PDict d)"
    from scrapper_record_needs_all[OF this] g assms(5) show False by auto
  qed
  moreover have "carousel p \<noteq> Broken \<and> price p \<noteq> Broken \<and> seller p \<noteq> Broken \<and> shipping p \<noteq> Broken
            \<longrightarrow> fst (scrapper net url s) = Inr PNone"
    using scrapper_absent_element[OF g assms(3,4,5)] by blast
  ultimately show ?thesis by (rule conjI)
qed

theorem no_partial_record_witness:
  "fst (scrapper (\<lambda>url. Some (product_page\<lparr>seller := Absent ''no such element''\<rparr>)) TEST_URL
          (new_session Map.empty))
     = Inr PNone"
proof -
  let ?p = "product_page\<lparr>seller := Absent ''no such element''\<rparr>"
  have a: "quit_calls (new_session Map.empty) = 0" by (simp add: new_session_def)
  have b: "(\<lambda>url. Some ?p) TEST_URL = Some ?p" by simp
  have c: "title ?p = Found (3, ''Film camera'')" by (simp add: product_page_def)
  have d: "(3::nat) \<le> 10" by simp
  have e: "carousel ?p = Absent ''no such element'' \<or> price ?p = Absent ''no such element''
           \<or> seller ?p = Absent ''no such element'' \<or> shipping ?p = Absent ''no such element''"
    by simp
  have f: "carousel ?p \<noteq> Broken \<and> price ?p \<noteq> Broken \<and> seller ?p \<noteq> Broken \<and> shipping ?p \<noteq> Broken"
    by (simp add: product_page_def)
  from no_partial_record[where net = "\<lambda>url. Some ?p" and url = TEST_URL, OF a b c d e] f
  show ?thesis by blast
qed

text \<open>
  Claim C6. On a fresh browser and a page that loads with the title present within
  the wait and the four other elements found, \<open>scrapper\<close> returns the record whose
  \<open>current_url\<close> is the url it was given and whose \<open>path_img\<close> has one entry per
  \<open>img\<close> element of the image container.
\<close>

theorem scrapper_success:
  assumes "quit_calls s = 0" and "net url = Some p"
    and "title p = Found (t, name)" and "t \<le> 10"
    and "carousel p = Found imgs" and "price p = Found pr"
    and "seller p = Found se" and "shipping p = Found sh"
  shows "\<exists>d xs. fst (scrapper net url s) = Inr (PDict d)
           \<and> map_of d ''current_url'' = Some (PStr url)
           \<and> map_of d ''path_img'' = Some (PList xs) \<and> length xs = length imgs
           \<and> d = [(''name'', PStr name), (''path_img'', PList xs), (''current_url'', PStr url),
                  (''price'', PStr pr), (''seller'', attr_val se), (''shipping_cost'', PStr sh)]"
proof -
  have g: "browser_get net url s = Inr p"
    using assms(1,2) by (rule browser_get_fresh)
  have "scrapper_try p url s =
          (Inr (PDict [(''name'', PStr name), (''path_img'', PList (map attr_val imgs)),
                       (''current_url'', PStr url), (''price'', PStr pr),
                       (''seller'', attr_val se), (''shipping_cost'', PStr sh)]), s)"
    using assms(3-8) by (simp add: scrapper_try_def wait_until_present_def find_element_def)
  with g have "fst (scrapper net url s) =
          Inr (PDict [(''name'', PStr name), (''path_img'', PList (map attr_val imgs)),
                       (''current_url'', PStr url), (''price'', PStr pr),
                       (''seller'', attr_val se), (''shipping_cost'', PStr sh)])"
    by (simp add: scrapper_def)
  then show ?thesis by simp
qed

theorem scrapper_success_witness:
  "\<exists>d xs. fst (scrapper one_page_web TEST_URL (new_session Map.empty)) = Inr (PDict d)
           \<and> map_of d ''current_url'' = Some (PStr TEST_URL)
           \<and> map_of d ''path_img'' = Some (PList xs) \<and> length xs = 3"
proof -
  have a: "quit_calls (new_session Map.empty) = 0" by (simp add: new_session_def)
  have b: "one_page_web TEST_URL = Some product_page" by (simp add: one_page_web_def)
  have c: "title product_page = Found (3, ''Film camera'')" by (simp add: product_page_def)
  have d: "(3::nat) \<le> 10" by simp
  have e: "carousel product_page = Found [Some ''https://i.ebayimg.com/images/g/a/s-l1600.jpg'',
                        Some ''https://i.ebayimg.com/images/g/b/s-l1600.jpg'', None]"
    by (simp add: product_page_def)
  have f: "price product_page = Found ''US $25.00''" by (simp add: product_page_def)
  have g: "seller product_page = Found (Some ''camera_shop'')" by (simp add: product_page_def)
  have h: "shipping product_page = Found ''US $5.00''" by (simp add: product_page_def)
  from scrapper_success[where net = one_page_web and url = TEST_URL, OF a b c d e f g h]
  show ?thesis by auto
qed

text \<open>
  Claim C4 asks that the browser be quit once on every way out of \<open>scrapper\<close>. When
  \<open>browser.get\<close> raises, as for a url that does not load, the exception leaves
  \<open>scrapper\<close> before the \<open>try\<close> is entered and \<open>quit\<close> is not called. (Once the page
  has loaded, every way out quits once, and a late title gives the result of a
  missing element: \<open>scrapper_quits_once\<close> and \<open>scrapper_timeout\<close> above.)
\<close>

theorem scrapper_navigation_failure:
  "fst (scrapper one_page_web ''https://www.ebay.invalid/itm/1'' (new_session Map.empty))
     = Inl WebDriverException
   \<and> quit_calls (snd (scrapper one_page_web ''https://www.ebay.invalid/itm/1''
                          (new_session Map.empty))) = 0"
  by (simp add: scrapper_def browser_get_def one_page_web_def TEST_URL_def new_session_def)

subsection \<open>The writers\<close>

lemma write_to_file_serializable:
  assumes "serializable data"
  shows "write_to_file data s = (Inr (), s\<lparr>files := (files s)(path_file \<mapsto> encode_at 0 data)\<rparr>)"
  using assms by (simp add: write_to_file_def json_dumps_def Let_def)

lemma write_to_file_unserializable:
  assumes "\<not> serializable data"
  shows "write_to_file data s = (Inl TypeError, s\<lparr>files := (files s)(path_file \<mapsto> [])\<rparr>)"
  using assms by (simp add: write_to_file_def json_dumps_def Let_def)

lemma write_to_console_unserializable:
  assumes "\<not> serializable data"
  shows "write_to_console data s = (Inl TypeError, s)"
  using assms by (simp add: write_to_console_def json_dumps_def)

text \<open>
  Claim C8. For data that JSON can express, \<open>write_to_file\<close> returns normally and
  leaves the encoded text as the content of the file at the fixed path, whatever the
  file held before; a second call with the same data leaves the same content, and
  the same state altogether.
\<close>

theorem write_to_file_twice:
  assumes "serializable data"
  shows "fst (write_to_file data s) = Inr ()
       \<and> fst (write_to_file data (snd (write_to_file data s))) = Inr ()
       \<and> files (snd (write_to_file data s)) path_file = Some (encode_at 0 data)
       \<and> files (snd (write_to_file data (snd (write_to_file data s)))) path_file =
           files (snd (write_to_file data s)) path_file
       \<and> snd (write_to_file data (snd (write_to_file data s))) = snd (write_to_file data s)"
  by (simp add: write_to_file_serializable[OF assms])

theorem write_to_file_twice_witness:
  "files (snd (write_to_file small_record (new_session Map.empty))) path_file =
     Some (''{'' @ [CHR 0x0A] @ ''    '' @ [CHR 0x22] @ ''name'' @ [CHR 0x22] @ '': ''
             @ [CHR 0x22] @ ''a'' @ [CHR 0x22] @ '','' @ [CHR 0x0A]
           @ ''    '' @ [CHR 0x22] @ ''path_img'' @ [CHR 0x22] @ '': []'' @ [CHR 0x0A] @ ''}'')
   \<and> files (snd (write_to_file small_record
                    (snd (write_to_file small_record (new_session Map.empty))))) path_file =
       files (snd (write_to_file small_record (new_session Map.empty))) path_file"
proof -
  have s: "serializable small_record" by (simp add: small_record_def)
  have t: "encode_at 0 small_record =
             ''{'' @ [CHR 0x0A] @ ''    '' @ [CHR 0x22] @ ''name'' @ [CHR 0x22] @ '': ''
             @ [CHR 0x22] @ ''a'' @ [CHR 0x22] @ '','' @ [CHR 0x0A]
           @ ''    '' @ [CHR 0x22] @ ''path_img'' @ [CHR 0x22] @ '': []'' @ [CHR 0x0A] @ ''}''"
    by (simp add: small_record_def encode_str_def escape_char_def newline_indent_def
          eval_nat_numeral)
  from write_to_file_twice[OF s, of "new_session Map.empty"] t show ?thesis by simp
qed

text \<open>
  Claim C2 asks that data JSON cannot express be reported and the call return
  normally. The handler names \<open>JSONDecodeError\<close>, which \<open>json.dumps\<close> never raises:
  on a dict holding bytes both writers raise \<open>TypeError\<close> and print nothing, and
  \<open>write_to_file\<close> leaves the file empty.
\<close>

theorem unserializable_data_raises:
  "fst (write_to_file bytes_record (new_session Map.empty)) = Inl TypeError
   \<and> printed_lines (snd (write_to_file bytes_record (new_session Map.empty))) = []
   \<and> files (snd (write_to_file bytes_record (new_session Map.empty))) path_file = Some []
   \<and> fst (write_to_console bytes_record (new_session Map.empty)) = Inl TypeError
   \<and> printed_lines (snd (write_to_console bytes_record (new_session Map.empty))) = []"
  by (simp add: write_to_file_def write_to_console_def json_dumps_def bytes_record_def
        new_session_def Let_def)

end
